theory Spec2Isabelle
  imports Complex_Main "HOL-Library.Monad_Syntax"
begin

section \<open>Conventions of the embedding\<close>

text \<open>
  The Python sources are embedded function by function. Python floats are idealised as
  real numbers (no rounding); the values that NumPy and pandas produce where Python would
  raise (not-a-number, the infinities) are added explicitly in the part on the technical
  indicators, where the behaviour of the code depends on them. A \<open>datetime\<close> is a number
  of microseconds on the clock that \<open>datetime.now()\<close> reads. Every \<open>try ... except Exception\<close>
  of the source is a branch of the model that yields the value the handler returns.
\<close>

type_synonym datetime = int

definition microseconds_per_second :: int where
  "microseconds_per_second = 1000000"

definition microseconds_per_day :: int where
  "microseconds_per_day = 86400 * 1000000"

text \<open>
  The difference of two datetimes is a \<open>timedelta\<close>, which Python keeps normalised as
  days, seconds (0 to 86399) and microseconds (0 to 999999), the days carrying the sign.
  Its attribute \<open>seconds\<close> is the middle component only.
\<close>

definition timedelta_days :: "int \<Rightarrow> int" where
  "timedelta_days d = d div microseconds_per_day"

definition timedelta_seconds :: "int \<Rightarrow> int" where
  "timedelta_seconds d = (d mod microseconds_per_day) div microseconds_per_second"

text \<open>Python's true division of floats raises \<open>ZeroDivisionError\<close> on a zero divisor.\<close>

definition py_truediv :: "real \<Rightarrow> real \<Rightarrow> real option" where
  "py_truediv a b = (if b = 0 then None else Some (a / b))"

section \<open>stock\_data.py: quotes, the two providers and the cache\<close>

text \<open>The dictionary that both provider paths build.\<close>

record quote =
  symbol :: string
  current_price :: real
  change :: real
  change_percent :: real
  open_price :: real
  high :: real
  low :: real
  volume :: int
  previous_close :: real
  timestamp :: datetime
  source :: string

text \<open>One row of the data frame that \<open>ticker.history\<close> returns.\<close>

record bar =
  Open :: real
  High :: real
  Low :: real
  Close :: real
  Volume :: int

text \<open>
  What the outside world answers during one call. \<open>YfRaises\<close> stands for any exception
  out of \<open>yf.Ticker\<close>, \<open>ticker.info\<close> or \<open>ticker.history\<close>; \<open>AvRaises\<close> for any exception
  out of \<open>requests.get\<close> (the 10 second timeout among them). The body of an HTTP response
  is either not JSON (\<open>response.json()\<close> raises) or a JSON object, of which the code reads
  the entry \<open>Global Quote\<close> only: a dictionary from field names to strings, when present.
\<close>

datatype yf_result = YfRaises | YfHistory "bar list"

datatype av_body = AvNotJson | AvData "(string \<rightharpoonup> string) option"

datatype av_result = AvRaises | AvResponse int av_body

text \<open>
  The environment of a call: the two providers, Python's \<open>float\<close> and \<open>int\<close> on strings
  (\<open>None\<close> where they raise \<open>ValueError\<close>), and whether the delivery of a price alert to
  Discord returns (\<open>True\<close>) or raises.
\<close>

record env =
  yfinance :: "string \<Rightarrow> yf_result"
  alpha_vantage :: "string \<Rightarrow> av_result"
  py_float :: "string \<Rightarrow> real option"
  py_int :: "string \<Rightarrow> int option"
  alert_delivered :: "string \<Rightarrow> quote \<Rightarrow> real \<Rightarrow> bool"

text \<open>\<open>StockDataManager._get_yfinance_data\<close>.\<close>

definition get_yfinance_data :: "env \<Rightarrow> datetime \<Rightarrow> string \<Rightarrow> quote option" where
  "get_yfinance_data e now ticker =
     (case yfinance e ticker of
        YfRaises \<Rightarrow> None
      | YfHistory hist \<Rightarrow>
          if hist = [] then None
          else
            let current_data = last hist;
                previous_data = (if length hist > 1 then hist ! (length hist - 2) else current_data);
                cur = Close current_data;
                prev = Close previous_data;
                chg = cur - prev
            in do {
              pct \<leftarrow> (if prev \<noteq> 0 then map_option (\<lambda>r. r * 100) (py_truediv chg prev) else Some 0);
              Some \<lparr> symbol = ticker, current_price = cur, change = chg, change_percent = pct,
                     open_price = Open current_data, high = High current_data,
                     low = Low current_data, volume = Volume current_data,
                     previous_close = prev, timestamp = now, source = ''yfinance'' \<rparr>
            })"

text \<open>Reading one field of the \<open>Global Quote\<close> dictionary: a missing key raises \<open>KeyError\<close>.\<close>

definition float_field :: "env \<Rightarrow> (string \<rightharpoonup> string) \<Rightarrow> string \<Rightarrow> real option" where
  "float_field e q k = (case q k of None \<Rightarrow> None | Some s \<Rightarrow> py_float e s)"

definition int_field :: "env \<Rightarrow> (string \<rightharpoonup> string) \<Rightarrow> string \<Rightarrow> int option" where
  "int_field e q k = (case q k of None \<Rightarrow> None | Some s \<Rightarrow> py_int e s)"

text \<open>\<open>quote['10. change percent'].replace('%', '')\<close> followed by \<open>float\<close>.\<close>

definition percent_field :: "env \<Rightarrow> (string \<rightharpoonup> string) \<Rightarrow> string \<Rightarrow> real option" where
  "percent_field e q k =
     (case q k of None \<Rightarrow> None | Some s \<Rightarrow> py_float e (filter (\<lambda>c. c \<noteq> CHR ''%'') s))"

text \<open>\<open>StockDataManager._get_alpha_vantage_data\<close>.\<close>

definition get_alpha_vantage_data :: "env \<Rightarrow> datetime \<Rightarrow> string \<Rightarrow> quote option" where
  "get_alpha_vantage_data e now ticker =
     (case alpha_vantage e ticker of
        AvRaises \<Rightarrow> None
      | AvResponse status_code body \<Rightarrow>
          if status_code \<noteq> 200 then None
          else (case body of
                  AvNotJson \<Rightarrow> None
                | AvData None \<Rightarrow> None
                | AvData (Some q) \<Rightarrow> do {
                    cur \<leftarrow> float_field e q ''05. price'';
                    prev \<leftarrow> float_field e q ''08. previous close'';
                    chg \<leftarrow> float_field e q ''09. change'';
                    pct \<leftarrow> percent_field e q ''10. change percent'';
                    opn \<leftarrow> float_field e q ''02. open'';
                    hi \<leftarrow> float_field e q ''03. high'';
                    lo \<leftarrow> float_field e q ''04. low'';
                    vol \<leftarrow> int_field e q ''06. volume'';
                    Some \<lparr> symbol = ticker, current_price = cur, change = chg, change_percent = pct,
                           open_price = opn, high = hi, low = lo, volume = vol,
                           previous_close = prev, timestamp = now, source = ''alpha_vantage'' \<rparr>
                  }))"

text \<open>
  The cache of current quotes: \<open>self.cache[key]\<close> holds \<open>data\<close> and the \<open>timestamp\<close> of the
  store (here \<open>cache_time\<close>, as \<open>_is_cache_valid\<close> calls it). The entries that
  \<open>get_historical_data\<close> keeps in the same dictionary live under keys of another shape
  and are not part of this model.
\<close>

record cache_entry =
  data :: quote
  cache_time :: datetime

type_synonym cache = "string \<rightharpoonup> cache_entry"

definition cache_duration :: int where
  "cache_duration = 60"

text \<open>\<open>StockDataManager._is_cache_valid\<close>.\<close>

definition is_cache_valid :: "cache \<Rightarrow> datetime \<Rightarrow> string \<Rightarrow> bool" where
  "is_cache_valid c now key =
     (case c key of
        None \<Rightarrow> False
      | Some entry \<Rightarrow> timedelta_seconds (now - cache_time entry) < cache_duration)"

text \<open>\<open>StockDataManager._update_cache\<close>.\<close>

definition update_cache :: "cache \<Rightarrow> datetime \<Rightarrow> string \<Rightarrow> quote \<Rightarrow> cache" where
  "update_cache c now key d = c(key \<mapsto> \<lparr> data = d, cache_time = now \<rparr>)"

text \<open>
  \<open>StockDataManager.get_stock_data\<close>. The result is what the caller gets (\<open>None\<close> for
  Python's \<open>None\<close>), the cache after the call, and the providers that were called, in
  order: an empty list means that no fetch took place. The clock readings of one call are
  taken at the same instant \<open>now\<close>.
\<close>

datatype provider = Primary | Fallback

definition get_stock_data ::
  "env \<Rightarrow> datetime \<Rightarrow> string \<Rightarrow> cache \<Rightarrow> quote option \<times> cache \<times> provider list" where
  "get_stock_data e now ticker c =
     (let cache_key = ticker @ ''_current'' in
      if is_cache_valid c now cache_key then
        (case c cache_key of
           None \<Rightarrow> (None, c, [])
         | Some entry \<Rightarrow> (Some (data entry), c, []))
      else
        (case get_yfinance_data e now ticker of
           Some d \<Rightarrow> (Some d, update_cache c now cache_key d, [Primary])
         | None \<Rightarrow>
             (case get_alpha_vantage_data e now ticker of
                Some d \<Rightarrow> (Some d, update_cache c now cache_key d, [Primary, Fallback])
              | None \<Rightarrow> (None, c, [Primary, Fallback]))))"

section \<open>main.py: the price monitor\<close>

text \<open>
  The part of \<open>StockBot\<close> that \<open>price_monitor\<close> reads and writes: the tracked symbols, the
  baselines \<open>last_prices\<close>, and the cache of its \<open>stock_manager\<close>. \<open>sent_alerts\<close> records the
  calls of \<open>send_price_alert\<close> in order (symbol, quote, percentage).
\<close>

record bot =
  tracked_stocks :: "string list"
  last_prices :: "string \<rightharpoonup> real"
  cache :: cache
  sent_alerts :: "(string \<times> quote \<times> real) list"

datatype outcome = Continues | Raises

text \<open>
  The body of the \<open>for\<close> loop of \<open>price_monitor\<close>, for one symbol. \<open>Raises\<close> is an exception
  leaving the body: the loop has no handler of its own, the only \<open>try\<close> encloses the
  whole loop.
\<close>

definition price_monitor_step :: "env \<Rightarrow> datetime \<Rightarrow> string \<Rightarrow> bot \<Rightarrow> outcome \<times> bot" where
  "price_monitor_step e now ticker b =
     (case get_stock_data e now ticker (cache b) of
        (current_data, c', calls) \<Rightarrow>
          let b1 = b\<lparr> cache := c' \<rparr> in
          (case current_data of
             None \<Rightarrow> (Continues, b1)
           | Some q \<Rightarrow>
               let cur = current_price q;
                   last_price = (case last_prices b1 ticker of None \<Rightarrow> cur | Some p \<Rightarrow> p)
               in
               if last_price \<noteq> 0 then
                 (case py_truediv (cur - last_price) last_price of
                    None \<Rightarrow> (Raises, b1)
                  | Some ratio \<Rightarrow>
                      let pct = ratio * 100 in
                      if \<bar>pct\<bar> \<ge> 2 then
                        (let b2 = b1\<lparr> sent_alerts := sent_alerts b1 @ [(ticker, q, pct)] \<rparr> in
                         if alert_delivered e ticker q pct
                         then (Continues, b2\<lparr> last_prices := (last_prices b2)(ticker \<mapsto> cur) \<rparr>)
                         else (Raises, b2))
                      else (Continues, b1\<lparr> last_prices := (last_prices b1)(ticker \<mapsto> cur) \<rparr>))
               else (Continues, b1\<lparr> last_prices := (last_prices b1)(ticker \<mapsto> cur) \<rparr>)))"

fun price_monitor_loop :: "env \<Rightarrow> datetime \<Rightarrow> string list \<Rightarrow> bot \<Rightarrow> outcome \<times> bot" where
  "price_monitor_loop e now [] b = (Continues, b)"
| "price_monitor_loop e now (ticker # rest) b =
     (case price_monitor_step e now ticker b of
        (Raises, b') \<Rightarrow> (Raises, b')
      | (Continues, b') \<Rightarrow> price_monitor_loop e now rest b')"

text \<open>
  \<open>StockBot.price_monitor\<close>, one tick. The handler around the loop logs the exception and
  the tick ends; the state is the one reached when the exception was raised.
\<close>

datatype tick = Completed | ErrorLogged

definition price_monitor :: "env \<Rightarrow> datetime \<Rightarrow> bot \<Rightarrow> tick \<times> bot" where
  "price_monitor e now b =
     (if tracked_stocks b = [] then (Completed, b)
      else (case price_monitor_loop e now (tracked_stocks b) b of
              (Continues, b') \<Rightarrow> (Completed, b')
            | (Raises, b') \<Rightarrow> (ErrorLogged, b')))"

section \<open>persistence.py: the tracked symbols on disk\<close>

text \<open>
  The JSON document that \<open>save_tracked_stocks\<close> writes, and what the file can be when it is
  read: missing, unreadable (\<open>open\<close> or \<open>json.load\<close> raises, or the document is not an
  object), or a document whose entry \<open>stocks\<close> may be absent. \<open>writable\<close> tells whether
  opening the file for writing succeeds.
\<close>

record tracked_document =
  stocks :: "string list option"
  last_updated :: datetime
  count :: nat

datatype file_content = Missing | Unreadable | Document tracked_document

record disk =
  tracked_stocks_file :: file_content
  writable :: bool

text \<open>\<open>str.upper\<close>, on the ASCII letters.\<close>

definition upper_char :: "char \<Rightarrow> char" where
  "upper_char c =
     (case map_of (zip ''abcdefghijklmnopqrstuvwxyz'' ''ABCDEFGHIJKLMNOPQRSTUVWXYZ'') c of
        None \<Rightarrow> c
      | Some u \<Rightarrow> u)"

definition upper :: "string \<Rightarrow> string" where
  "upper s = map upper_char s"

definition save_tracked_stocks :: "disk \<Rightarrow> datetime \<Rightarrow> string list \<Rightarrow> bool \<times> disk" where
  "save_tracked_stocks d now xs =
     (if writable d
      then (True, d\<lparr> tracked_stocks_file :=
              Document \<lparr> stocks = Some xs, last_updated = now, count = length xs \<rparr> \<rparr>)
      else (False, d))"

definition load_tracked_stocks :: "disk \<Rightarrow> datetime \<Rightarrow> string list \<times> disk" where
  "load_tracked_stocks d now =
     (case tracked_stocks_file d of
        Missing \<Rightarrow> ([], snd (save_tracked_stocks d now []))
      | Unreadable \<Rightarrow> ([], d)
      | Document doc \<Rightarrow> ((case stocks doc of None \<Rightarrow> [] | Some xs \<Rightarrow> xs), d))"

definition add_tracked_stock :: "disk \<Rightarrow> datetime \<Rightarrow> string \<Rightarrow> bool \<times> disk" where
  "add_tracked_stock d now ticker =
     (case load_tracked_stocks d now of
        (xs, d') \<Rightarrow>
          if ticker \<notin> set xs then save_tracked_stocks d' now (xs @ [upper ticker])
          else (True, d'))"

definition remove_tracked_stock :: "disk \<Rightarrow> datetime \<Rightarrow> string \<Rightarrow> bool \<times> disk" where
  "remove_tracked_stock d now ticker =
     (case load_tracked_stocks d now of
        (xs, d') \<Rightarrow>
          if upper ticker \<in> set xs then save_tracked_stocks d' now (remove1 (upper ticker) xs)
          else (True, d'))"

section \<open>ai\_advisor.py: the technical indicators\<close>

subsection \<open>NumPy floats and pandas series\<close>

text \<open>
  The indicators are computed by pandas on NumPy floats, where a division by zero does not
  raise but yields an infinity, or not-a-number for \<open>0 / 0\<close>, and where a rolling window
  that is not full yields not-a-number. These values decide what the code does, so they
  are part of the model: a float is a real number, an infinity or \<open>NaN\<close>. Arithmetic follows
  IEEE 754 on these values; rounding, overflow and the sign of zero are left out.
\<close>

datatype npfloat = Finite real | PosInf | NegInf | NaN

fun np_neg :: "npfloat \<Rightarrow> npfloat" where
  "np_neg (Finite a) = Finite (- a)"
| "np_neg PosInf = NegInf"
| "np_neg NegInf = PosInf"
| "np_neg NaN = NaN"

fun np_add :: "npfloat \<Rightarrow> npfloat \<Rightarrow> npfloat" where
  "np_add (Finite a) (Finite b) = Finite (a + b)"
| "np_add NaN _ = NaN"
| "np_add _ NaN = NaN"
| "np_add PosInf NegInf = NaN"
| "np_add NegInf PosInf = NaN"
| "np_add PosInf _ = PosInf"
| "np_add _ PosInf = PosInf"
| "np_add NegInf _ = NegInf"
| "np_add _ NegInf = NegInf"

definition np_sub :: "npfloat \<Rightarrow> npfloat \<Rightarrow> npfloat" where
  "np_sub a b = np_add a (np_neg b)"

fun np_mul :: "npfloat \<Rightarrow> npfloat \<Rightarrow> npfloat" where
  "np_mul (Finite a) (Finite b) = Finite (a * b)"
| "np_mul NaN _ = NaN"
| "np_mul _ NaN = NaN"
| "np_mul PosInf (Finite b) = (if 0 < b then PosInf else if b < 0 then NegInf else NaN)"
| "np_mul NegInf (Finite b) = (if 0 < b then NegInf else if b < 0 then PosInf else NaN)"
| "np_mul (Finite a) PosInf = (if 0 < a then PosInf else if a < 0 then NegInf else NaN)"
| "np_mul (Finite a) NegInf = (if 0 < a then NegInf else if a < 0 then PosInf else NaN)"
| "np_mul PosInf PosInf = PosInf"
| "np_mul NegInf NegInf = PosInf"
| "np_mul PosInf NegInf = NegInf"
| "np_mul NegInf PosInf = NegInf"

fun np_div :: "npfloat \<Rightarrow> npfloat \<Rightarrow> npfloat" where
  "np_div (Finite a) (Finite b) =
     (if b \<noteq> 0 then Finite (a / b)
      else if 0 < a then PosInf else if a < 0 then NegInf else NaN)"
| "np_div NaN _ = NaN"
| "np_div _ NaN = NaN"
| "np_div (Finite a) PosInf = Finite 0"
| "np_div (Finite a) NegInf = Finite 0"
| "np_div PosInf (Finite b) = (if 0 \<le> b then PosInf else NegInf)"
| "np_div NegInf (Finite b) = (if 0 \<le> b then NegInf else PosInf)"
| "np_div PosInf PosInf = NaN"
| "np_div PosInf NegInf = NaN"
| "np_div NegInf PosInf = NaN"
| "np_div NegInf NegInf = NaN"

text \<open>A comparison with \<open>NaN\<close> is false.\<close>

fun np_gt :: "npfloat \<Rightarrow> npfloat \<Rightarrow> bool" where
  "np_gt (Finite a) (Finite b) = (b < a)"
| "np_gt PosInf (Finite b) = True"
| "np_gt PosInf NegInf = True"
| "np_gt (Finite a) NegInf = True"
| "np_gt _ _ = False"

definition np_lt :: "npfloat \<Rightarrow> npfloat \<Rightarrow> bool" where
  "np_lt a b = np_gt b a"

type_synonym series = "npfloat list"

text \<open>
  \<open>series.iloc[i]\<close>: a negative index counts from the end, and an index out of range
  raises \<open>IndexError\<close> (\<open>None\<close>).
\<close>

definition iloc :: "'a list \<Rightarrow> int \<Rightarrow> 'a option" where
  "iloc xs i =
     (if 0 \<le> i \<and> i < int (length xs) then Some (xs ! nat i)
      else if i < 0 \<and> - int (length xs) \<le> i then Some (xs ! nat (int (length xs) + i))
      else None)"

text \<open>The values of a window when all of them are finite numbers.\<close>

fun finite_values :: "series \<Rightarrow> real list option" where
  "finite_values [] = Some []"
| "finite_values (Finite r # xs) = map_option ((#) r) (finite_values xs)"
| "finite_values (_ # xs) = None"

text \<open>
  \<open>series.rolling(window=w)\<close> followed by an aggregation \<open>f\<close>: position \<open>i\<close> holds \<open>f\<close> of the
  \<open>w\<close> values that end at \<open>i\<close>, and \<open>NaN\<close> when fewer than \<open>w\<close> values end there or when one
  of them is missing (\<open>min_periods\<close> is the window size; pandas turns an infinity into a
  missing value before it aggregates).
\<close>

definition rolling :: "nat \<Rightarrow> (real list \<Rightarrow> npfloat) \<Rightarrow> series \<Rightarrow> series" where
  "rolling w f xs =
     map (\<lambda>i. if Suc i < w then NaN
              else (case finite_values (take w (drop (Suc i - w) xs)) of
                      None \<Rightarrow> NaN
                    | Some vs \<Rightarrow> f vs))
         [0..<length xs]"

definition mean :: "real list \<Rightarrow> npfloat" where
  "mean vs = Finite (sum_list vs / real (length vs))"

text \<open>The sample standard deviation (one degree of freedom removed).\<close>

definition std :: "real list \<Rightarrow> npfloat" where
  "std vs =
     (let m = sum_list vs / real (length vs)
      in if length vs < 2 then NaN
         else Finite (sqrt (sum_list (map (\<lambda>v. (v - m)\<^sup>2) vs) / (real (length vs) - 1))))"

definition window_max :: "real list \<Rightarrow> npfloat" where
  "window_max vs = (case vs of [] \<Rightarrow> NaN | v # rest \<Rightarrow> Finite (fold max rest v))"

definition window_min :: "real list \<Rightarrow> npfloat" where
  "window_min vs = (case vs of [] \<Rightarrow> NaN | v # rest \<Rightarrow> Finite (fold min rest v))"

text \<open>\<open>series.diff()\<close> and \<open>series.pct_change()\<close>: the first position has no predecessor.\<close>

definition diff :: "series \<Rightarrow> series" where
  "diff xs = (case xs of [] \<Rightarrow> [] | x # rest \<Rightarrow> NaN # map2 (\<lambda>b a. np_sub b a) rest xs)"

definition pct_change_series :: "series \<Rightarrow> series" where
  "pct_change_series xs =
     (case xs of
        [] \<Rightarrow> []
      | x # rest \<Rightarrow> NaN # map2 (\<lambda>b a. np_sub (np_div b a) (Finite 1)) rest xs)"

text \<open>\<open>series.where(cond, other)\<close> keeps a value where the condition holds.\<close>

definition series_where :: "(npfloat \<Rightarrow> bool) \<Rightarrow> npfloat \<Rightarrow> series \<Rightarrow> series" where
  "series_where cond other xs = map (\<lambda>x. if cond x then x else other) xs"

text \<open>A column of the data frame; the fetched bars hold finite numbers.\<close>

definition column :: "(bar \<Rightarrow> real) \<Rightarrow> bar list \<Rightarrow> series" where
  "column f df = map (\<lambda>b. Finite (f b)) df"

subsection \<open>The indicator dictionary\<close>

datatype pyvalue = Float npfloat | Str string

type_synonym indicators = "string \<rightharpoonup> pyvalue"

text \<open>
  \<open>AIAdvisor._calculate_technical_indicators\<close> is one \<open>try\<close> block of six commented parts,
  each of which adds keys to the dictionary \<open>indicators\<close>. Each part is a function here,
  from the dictionary so far to the dictionary after it, or \<open>None\<close> when it raises.
\<close>

definition moving_averages :: "bar list \<Rightarrow> indicators \<Rightarrow> indicators option" where
  "moving_averages df ind0 = do {
     ind1 \<leftarrow> (if length df \<ge> 20 then do {
                 ma20 \<leftarrow> iloc (rolling 20 mean (column Close df)) (- 1);
                 c \<leftarrow> iloc (column Close df) (- 1);
                 Some (ind0(''ma20'' \<mapsto> Float ma20,
                            ''ma20_trend'' \<mapsto> Str (if np_gt c ma20 then ''bullish'' else ''bearish'')))
               } else Some ind0);
     ind2 \<leftarrow> (if length df \<ge> 10 then do {
                 ma10 \<leftarrow> iloc (rolling 10 mean (column Close df)) (- 1);
                 c \<leftarrow> iloc (column Close df) (- 1);
                 Some (ind1(''ma10'' \<mapsto> Float ma10,
                            ''ma10_trend'' \<mapsto> Str (if np_gt c ma10 then ''bullish'' else ''bearish'')))
               } else Some ind1);
     (if length df \<ge> 5 then do {
        ma5 \<leftarrow> iloc (rolling 5 mean (column Close df)) (- 1);
        c \<leftarrow> iloc (column Close df) (- 1);
        Some (ind2(''ma5'' \<mapsto> Float ma5,
                   ''ma5_trend'' \<mapsto> Str (if np_gt c ma5 then ''bullish'' else ''bearish'')))
      } else Some ind2)
   }"

definition rsi_calculation :: "bar list \<Rightarrow> indicators \<Rightarrow> indicators option" where
  "rsi_calculation df ind =
     (if length df \<ge> 14 then do {
        let delta = diff (column Close df);
        let gain = rolling 14 mean (series_where (\<lambda>d. np_gt d (Finite 0)) (Finite 0) delta);
        let loss = rolling 14 mean
                     (map np_neg (series_where (\<lambda>d. np_lt d (Finite 0)) (Finite 0) delta));
        let rs = map2 np_div gain loss;
        let rsi = map (\<lambda>r. np_sub (Finite 100) (np_div (Finite 100) (np_add (Finite 1) r))) rs;
        v \<leftarrow> (if rsi \<noteq> [] then iloc rsi (- 1) else Some (Finite 50));
        Some (ind(''rsi'' \<mapsto> Float v,
                  ''rsi_signal'' \<mapsto> Str (if np_gt v (Finite 70) then ''overbought''
                                         else if np_lt v (Finite 30) then ''oversold''
                                         else ''neutral'')))
      } else Some ind)"

definition volume_analysis :: "bar list \<Rightarrow> indicators \<Rightarrow> indicators option" where
  "volume_analysis df ind = do {
     avg_volume \<leftarrow> iloc (rolling 10 mean (column (\<lambda>b. real_of_int (Volume b)) df)) (- 1);
     current_volume \<leftarrow> iloc (column (\<lambda>b. real_of_int (Volume b)) df) (- 1);
     let volume_ratio = np_div current_volume avg_volume;
     Some (ind(''volume_ratio'' \<mapsto> Float volume_ratio,
               ''volume_signal'' \<mapsto> Str (if np_gt volume_ratio (Finite (3 / 2)) then ''high''
                                          else ''normal'')))
   }"

definition price_momentum :: "bar list \<Rightarrow> indicators \<Rightarrow> indicators option" where
  "price_momentum df ind =
     (if length df \<ge> 5 then do {
        price_5d_ago \<leftarrow> iloc (column Close df) (- 5);
        cur \<leftarrow> iloc (column Close df) (- 1);
        Some (ind(''momentum_5d'' \<mapsto>
                Float (np_mul (np_div (np_sub cur price_5d_ago) price_5d_ago) (Finite 100))))
      } else Some ind)"

definition volatility :: "bar list \<Rightarrow> indicators \<Rightarrow> indicators option" where
  "volatility df ind = do {
     v \<leftarrow> iloc (rolling 10 std (pct_change_series (column Close df))) (- 1);
     Some (ind(''volatility'' \<mapsto> Float (np_mul v (Finite 100))))
   }"

definition support_resistance :: "bar list \<Rightarrow> indicators \<Rightarrow> indicators option" where
  "support_resistance df ind = do {
     high_20d \<leftarrow> iloc (rolling 20 window_max (column High df)) (- 1);
     low_20d \<leftarrow> iloc (rolling 20 window_min (column Low df)) (- 1);
     Some (ind(''resistance_level'' \<mapsto> Float high_20d, ''support_level'' \<mapsto> Float low_20d))
   }"

text \<open>The whole function: an exception in any part yields the empty dictionary.\<close>

definition calculate_technical_indicators :: "bar list \<Rightarrow> indicators" where
  "calculate_technical_indicators df =
     (case do {
             ind1 \<leftarrow> moving_averages df Map.empty;
             ind2 \<leftarrow> rsi_calculation df ind1;
             ind3 \<leftarrow> volume_analysis df ind2;
             ind4 \<leftarrow> price_momentum df ind3;
             ind5 \<leftarrow> volatility df ind4;
             support_resistance df ind5
           } of
        None \<Rightarrow> Map.empty
      | Some ind \<Rightarrow> ind)"

section \<open>Notions used in the statements\<close>

text \<open>
  A fetch is a call that gets past the cache; each one starts with the primary provider,
  so the fetches of a log are its calls of that provider.
\<close>

definition fetch_count :: "provider list \<Rightarrow> nat" where
  "fetch_count calls = length (filter (\<lambda>p. p = Primary) calls)"

text \<open>The relation between the fields of a quote that the specification asks for.\<close>

definition quote_invariant :: "quote \<Rightarrow> bool" where
  "quote_invariant q =
     (change q = current_price q - previous_close q \<and>
      change_percent q =
        (if previous_close q \<noteq> 0
         then (current_price q - previous_close q) / previous_close q * 100 else 0))"

text \<open>A cache whose quotes of the primary provider all satisfy that relation.\<close>

definition primary_entries_ok :: "cache \<Rightarrow> bool" where
  "primary_entries_ok c =
     (\<forall>k entry. c k = Some entry \<longrightarrow> source (data entry) = ''yfinance'' \<longrightarrow>
        quote_invariant (data entry))"

text \<open>
  The baseline of a symbol when its quote arrives: the stored price, or the price of the
  quote itself when none is stored. The percentage change is taken against it.
\<close>

definition baseline :: "bot \<Rightarrow> string \<Rightarrow> quote \<Rightarrow> real" where
  "baseline b ticker q = (case last_prices b ticker of None \<Rightarrow> current_price q | Some p \<Rightarrow> p)"

definition pct_change :: "real \<Rightarrow> real \<Rightarrow> real" where
  "pct_change cur last_price = (cur - last_price) / last_price * 100"

section \<open>Concrete scenarios\<close>

text \<open>A quote cached at time 0, and a cache that holds it.\<close>

definition stale_quote :: quote where
  "stale_quote = \<lparr> symbol = ''AAPL'', current_price = 150, change = 1, change_percent = 100 / 149,
       open_price = 149, high = 151, low = 148, volume = 1000, previous_close = 149,
       timestamp = 0, source = ''yfinance'' \<rparr>"

definition day_old_cache :: cache where
  "day_old_cache = [''AAPL_current'' \<mapsto> \<lparr> data = stale_quote, cache_time = 0 \<rparr>]"

text \<open>A primary provider that answers with two daily bars, and the quote built from them.\<close>

definition two_bar_env :: env where
  "two_bar_env = \<lparr>
     yfinance = (\<lambda>t. YfHistory
       [\<lparr> Open = 148, High = 150, Low = 147, Close = 149, Volume = 900 \<rparr>,
        \<lparr> Open = 149, High = 151, Low = 148, Close = 150, Volume = 1000 \<rparr>]),
     alpha_vantage = (\<lambda>t. AvRaises),
     py_float = (\<lambda>s. None),
     py_int = (\<lambda>s. None),
     alert_delivered = (\<lambda>t q p. True) \<rparr>"

definition two_bar_quote :: quote where
  "two_bar_quote = \<lparr> symbol = ''AAPL'', current_price = 150, change = 1, change_percent = 100 / 149,
       open_price = 149, high = 151, low = 148, volume = 1000, previous_close = 149,
       timestamp = 0, source = ''yfinance'' \<rparr>"

text \<open>
  A primary provider that fails and a fallback that answers in its native layout, with
  four decimals; \<open>float\<close> and \<open>int\<close> are given on the strings of that answer.
\<close>

definition global_quote :: "string \<rightharpoonup> string" where
  "global_quote = map_of
     [(''01. symbol'', ''IBM''), (''02. open'', ''149.5000''), (''03. high'', ''151.0000''),
      (''04. low'', ''148.0000''), (''05. price'', ''150.0000''), (''06. volume'', ''1000''),
      (''07. latest trading day'', ''2025-07-21''), (''08. previous close'', ''149.0000''),
      (''09. change'', ''1.0000''), (''10. change percent'', ''0.6711%'')]"

definition fallback_env :: env where
  "fallback_env = \<lparr>
     yfinance = (\<lambda>t. YfRaises),
     alpha_vantage = (\<lambda>t. AvResponse 200 (AvData (Some global_quote))),
     py_float = map_of
       [(''149.5000'', 1495 / 10), (''151.0000'', 151), (''148.0000'', 148), (''150.0000'', 150),
        (''149.0000'', 149), (''1.0000'', 1), (''0.6711'', 6711 / 10000)],
     py_int = map_of [(''1000'', 1000)],
     alert_delivered = (\<lambda>t q p. True) \<rparr>"

definition fallback_quote :: quote where
  "fallback_quote = \<lparr> symbol = ''IBM'', current_price = 150, change = 1,
       change_percent = 6711 / 10000,
       open_price = 1495 / 10, high = 151, low = 148, volume = 1000, previous_close = 149,
       timestamp = 0, source = ''alpha_vantage'' \<rparr>"

text \<open>
  A market in which every symbol closed at 100 the day before; today \<open>BBB\<close> is at 101, the
  provider has nothing for \<open>DOWN\<close>, and every other symbol is at 103. Alerts are delivered
  in \<open>market_env\<close> and their delivery raises in \<open>discord_down_env\<close>.
\<close>

definition day_bar :: "real \<Rightarrow> bar" where
  "day_bar c = \<lparr> Open = c, High = c, Low = c, Close = c, Volume = 1000 \<rparr>"

definition market_env :: env where
  "market_env = \<lparr>
     yfinance = (\<lambda>t. if t = ''DOWN'' then YfRaises
                     else if t = ''BBB'' then YfHistory [day_bar 100, day_bar 101]
                     else YfHistory [day_bar 100, day_bar 103]),
     alpha_vantage = (\<lambda>t. AvRaises),
     py_float = (\<lambda>s. None),
     py_int = (\<lambda>s. None),
     alert_delivered = (\<lambda>t q p. True) \<rparr>"

definition discord_down_env :: env where
  "discord_down_env = market_env \<lparr> alert_delivered := (\<lambda>t q p. False) \<rparr>"

definition market_quote :: "string \<Rightarrow> real \<Rightarrow> real \<Rightarrow> quote" where
  "market_quote t cur pct = \<lparr> symbol = t, current_price = cur, change = cur - 100,
       change_percent = pct, open_price = cur, high = cur, low = cur, volume = 1000,
       previous_close = 100, timestamp = 0, source = ''yfinance'' \<rparr>"

definition bot_ab :: bot where
  "bot_ab = \<lparr> tracked_stocks = [''AAA'', ''BBB''],
              last_prices = [''AAA'' \<mapsto> 100, ''BBB'' \<mapsto> 100],
              cache = Map.empty, sent_alerts = [] \<rparr>"

definition bot_down :: bot where
  "bot_down = \<lparr> tracked_stocks = [''DOWN'', ''BBB''],
                last_prices = [''ZERO'' \<mapsto> 0],
                cache = Map.empty, sent_alerts = [] \<rparr>"

text \<open>A disk on which one symbol is tracked.\<close>

definition aapl_disk :: disk where
  "aapl_disk = \<lparr> tracked_stocks_file =
       Document \<lparr> stocks = Some [''AAPL''], last_updated = 0, count = 1 \<rparr>, writable = True \<rparr>"

text \<open>A series of \<open>n\<close> bars whose prices rise by one each day, from 100.\<close>

definition rising :: "nat \<Rightarrow> bar list" where
  "rising n = map (\<lambda>i. day_bar (100 + real i)) [0..<n]"

section \<open>The cache\<close>

lemma timedelta_seconds_small:
  assumes "0 \<le> d" and "d < cache_duration * microseconds_per_second"
  shows "timedelta_seconds d < cache_duration"
  using assms
  by (simp add: timedelta_seconds_def cache_duration_def microseconds_per_second_def
      microseconds_per_day_def)

lemma get_stock_data_hit:
  assumes "c (ticker @ ''_current'') = Some entry"
    and "timedelta_seconds (now - cache_time entry) < cache_duration"
  shows "get_stock_data e now ticker c = (Some (data entry), c, [])"
  using assms by (simp add: get_stock_data_def is_cache_valid_def)

lemma get_stock_data_miss:
  assumes "\<not> is_cache_valid c now (ticker @ ''_current'')"
  shows "get_stock_data e now ticker c =
     (case get_yfinance_data e now ticker of
        Some d \<Rightarrow> (Some d, update_cache c now (ticker @ ''_current'') d, [Primary])
      | None \<Rightarrow>
         (case get_alpha_vantage_data e now ticker of
            Some d \<Rightarrow> (Some d, update_cache c now (ticker @ ''_current'') d, [Primary, Fallback])
          | None \<Rightarrow> (None, c, [Primary, Fallback])))"
  using assms by (simp add: get_stock_data_def Let_def)

text \<open>A call that yields no quote leaves the cache as it was.\<close>

lemma get_stock_data_None_cache:
  assumes "get_stock_data e now ticker c = (None, c', calls)"
  shows "c' = c"
  using assms
  by (auto simp: get_stock_data_def Let_def split: if_splits option.splits)

text \<open>
  An entry whose age is at least the cache duration and less than a day is not valid, so
  the call goes to the providers.
\<close>

lemma expired_same_day_not_valid:
  assumes "c key = Some entry"
    and "cache_duration * microseconds_per_second \<le> now - cache_time entry"
    and "now - cache_time entry < microseconds_per_day"
  shows "\<not> is_cache_valid c now key"
proof -
  let ?d = "now - cache_time entry"
  have "?d mod microseconds_per_day = ?d"
    using assms
    by (simp add: cache_duration_def microseconds_per_second_def microseconds_per_day_def)
  moreover have "cache_duration \<le> ?d div microseconds_per_second"
    using assms(2) by (simp add: cache_duration_def microseconds_per_second_def)
  ultimately show ?thesis
    using assms(1) by (simp add: is_cache_valid_def timedelta_seconds_def)
qed

text \<open>
  Claim C1 asks that an entry is never served once its age has reached the cache
  duration, whatever the age. The validity check reads the \<open>seconds\<close> component of the
  age, which starts again from zero every 24 hours: an entry stored at time 0 is served
  one day and five seconds later, and no provider is called.
\<close>

theorem day_old_entry_is_served:
  "cache_duration * microseconds_per_second
     \<le> 86405 * microseconds_per_second - cache_time \<lparr> data = stale_quote, cache_time = 0 \<rparr> \<and>
   timedelta_seconds (86405 * microseconds_per_second) = 5 \<and>
   get_stock_data e (86405 * microseconds_per_second) ''AAPL'' day_old_cache
     = (Some stale_quote, day_old_cache, [])"
  by (simp add: get_stock_data_def is_cache_valid_def day_old_cache_def timedelta_seconds_def
      cache_duration_def microseconds_per_second_def microseconds_per_day_def)

text \<open>
  Claim C6: when the entry of a symbol was stored less than \<open>cache_duration\<close> seconds ago
  (its age, the time elapsed since the store, is below 60 seconds), the call returns the
  cached quote, leaves the cache unchanged and calls no provider. In particular, after a
  call that missed the cache and fetched a quote, a call for the same symbol one second
  later returns that quote without a fetch: the two calls fetch exactly once.
\<close>

theorem cache_hit_within_ttl:
  "(c (ticker @ ''_current'') = Some entry \<and> cache_time entry \<le> now \<and>
    now - cache_time entry < cache_duration * microseconds_per_second
      \<longrightarrow> get_stock_data e now ticker c = (Some (data entry), c, []))
   \<and>
   (\<not> is_cache_valid c t (ticker @ ''_current'') \<and>
    get_stock_data e t ticker c = (Some q, c_after, calls)
      \<longrightarrow> get_stock_data e' (t + 1 * microseconds_per_second) ticker c_after = (Some q, c_after, []) \<and>
          fetch_count (calls @ []) = 1)"
proof -
  have hit: "get_stock_data e now ticker c = (Some (data entry), c, [])"
    if a: "c (ticker @ ''_current'') = Some entry \<and> cache_time entry \<le> now \<and>
      now - cache_time entry < cache_duration * microseconds_per_second"
  proof -
    from a have "timedelta_seconds (now - cache_time entry) < cache_duration"
      by (intro timedelta_seconds_small) simp_all
    with a show ?thesis
      by (simp add: get_stock_data_hit)
  qed
  have again: "get_stock_data e' (t + 1 * microseconds_per_second) ticker c_after
                 = (Some q, c_after, []) \<and>
          fetch_count (calls @ []) = 1"
    if b: "\<not> is_cache_valid c t (ticker @ ''_current'') \<and>
      get_stock_data e t ticker c = (Some q, c_after, calls)"
  proof -
    from b have miss: "\<not> is_cache_valid c t (ticker @ ''_current'')"
      and res: "get_stock_data e t ticker c = (Some q, c_after, calls)" by simp_all
    from res have stored: "c_after = update_cache c t (ticker @ ''_current'') q"
      and calls: "calls = [Primary] \<or> calls = [Primary, Fallback]"
      unfolding get_stock_data_miss [OF miss]
      by (auto split: option.splits)
    have entry: "c_after (ticker @ ''_current'') = Some \<lparr> data = q, cache_time = t \<rparr>"
      by (simp add: stored update_cache_def)
    have "timedelta_seconds (t + 1 * microseconds_per_second - t) < cache_duration"
      by (simp add: timedelta_seconds_def cache_duration_def microseconds_per_second_def
          microseconds_per_day_def)
    with entry
    have "get_stock_data e' (t + 1 * microseconds_per_second) ticker c_after
            = (Some q, c_after, [])"
      using get_stock_data_hit
        [of c_after ticker "\<lparr> data = q, cache_time = t \<rparr>" "t + 1 * microseconds_per_second" e']
      by simp
    moreover from calls have "fetch_count (calls @ []) = 1"
      by (auto simp: fetch_count_def)
    ultimately show ?thesis by simp
  qed
  from hit again show ?thesis by blast
qed

lemma two_bar_fetch:
  "get_stock_data two_bar_env 0 ''AAPL'' Map.empty =
     (Some two_bar_quote, [''AAPL_current'' \<mapsto> \<lparr> data = two_bar_quote, cache_time = 0 \<rparr>],
      [Primary])"
  by (simp add: get_stock_data_def is_cache_valid_def get_yfinance_data_def two_bar_env_def
      two_bar_quote_def update_cache_def py_truediv_def Let_def)

text \<open>
  An entry of age 59.999999 seconds is served; and a cold cache, a fetch at time 0 and a
  second call one second later make one fetch.
\<close>

theorem cache_hit_within_ttl_witness:
  "get_stock_data two_bar_env 59999999 ''AAPL'' day_old_cache
     = (Some stale_quote, day_old_cache, []) \<and>
   get_stock_data two_bar_env (0 + 1 * microseconds_per_second) ''AAPL''
       [''AAPL_current'' \<mapsto> \<lparr> data = two_bar_quote, cache_time = 0 \<rparr>]
     = (Some two_bar_quote, [''AAPL_current'' \<mapsto> \<lparr> data = two_bar_quote, cache_time = 0 \<rparr>], []) \<and>
   fetch_count ([Primary] @ []) = 1"
proof -
  have 1: "day_old_cache (''AAPL'' @ ''_current'') = Some \<lparr> data = stale_quote, cache_time = 0 \<rparr> \<and>
     cache_time \<lparr> data = stale_quote, cache_time = 0 \<rparr> \<le> 59999999 \<and>
     59999999 - cache_time \<lparr> data = stale_quote, cache_time = 0 \<rparr>
       < cache_duration * microseconds_per_second"
    by (simp add: day_old_cache_def cache_duration_def microseconds_per_second_def)
  have 2: "\<not> is_cache_valid Map.empty 0 (''AAPL'' @ ''_current'') \<and>
     get_stock_data two_bar_env 0 ''AAPL'' Map.empty =
       (Some two_bar_quote, [''AAPL_current'' \<mapsto> \<lparr> data = two_bar_quote, cache_time = 0 \<rparr>],
        [Primary])"
    by (simp add: two_bar_fetch is_cache_valid_def)
  from 1 2 cache_hit_within_ttl
    [where c = day_old_cache and ticker = "''AAPL''" and now = 59999999 and e = two_bar_env
       and entry = "\<lparr> data = stale_quote, cache_time = 0 \<rparr>"]
    cache_hit_within_ttl
    [where c = Map.empty and ticker = "''AAPL''" and t = 0 and e = two_bar_env
       and e' = two_bar_env and q = two_bar_quote and calls = "[Primary]"
       and c_after = "[''AAPL_current'' \<mapsto> \<lparr> data = two_bar_quote, cache_time = 0 \<rparr>]"]
  show ?thesis by simp
qed

section \<open>The two providers\<close>

lemma get_yfinance_data_None_iff:
  "get_yfinance_data e now ticker = None \<longleftrightarrow>
     yfinance e ticker = YfRaises \<or> yfinance e ticker = YfHistory []"
  by (auto simp: get_yfinance_data_def Let_def py_truediv_def split: yf_result.splits)

lemma get_yfinance_data_history:
  assumes "yfinance e ticker = YfHistory hist" and "hist \<noteq> []"
  shows "\<exists>q. get_yfinance_data e now ticker = Some q \<and>
           current_price q = Close (last hist) \<and>
           previous_close q = Close (if 1 < length hist then hist ! (length hist - 2) else last hist) \<and>
           change q = current_price q - previous_close q \<and>
           change_percent q = (if previous_close q \<noteq> 0
              then (current_price q - previous_close q) / previous_close q * 100 else 0) \<and>
           source q = ''yfinance''"
  using assms by (simp add: get_yfinance_data_def Let_def py_truediv_def)

lemma get_yfinance_data_invariant:
  assumes "get_yfinance_data e now ticker = Some q"
  shows "quote_invariant q \<and> source q = ''yfinance''"
proof -
  from assms obtain hist where h: "yfinance e ticker = YfHistory hist" "hist \<noteq> []"
    by (auto simp: get_yfinance_data_def split: yf_result.splits if_splits)
  from get_yfinance_data_history [OF h, of now] assms show ?thesis
    by (auto simp: quote_invariant_def)
qed

lemma get_alpha_vantage_data_fields:
  assumes "get_alpha_vantage_data e now ticker = Some q"
  shows "source q = ''alpha_vantage'' \<and>
         (\<exists>fields. alpha_vantage e ticker = AvResponse 200 (AvData (Some fields)) \<and>
            float_field e fields ''05. price'' = Some (current_price q) \<and>
            float_field e fields ''08. previous close'' = Some (previous_close q) \<and>
            float_field e fields ''09. change'' = Some (change q) \<and>
            percent_field e fields ''10. change percent'' = Some (change_percent q))"
  using assms
  by (auto simp: get_alpha_vantage_data_def
      split: av_result.splits av_body.splits option.splits if_splits Option.bind_splits)

lemma primary_entries_ok_update:
  assumes "primary_entries_ok c" and "source d = ''yfinance'' \<longrightarrow> quote_invariant d"
  shows "primary_entries_ok (update_cache c now key d)"
  using assms by (auto simp: primary_entries_ok_def update_cache_def)

lemma fallback_fetch:
  "get_stock_data fallback_env 0 ''IBM'' Map.empty =
     (Some fallback_quote, [''IBM_current'' \<mapsto> \<lparr> data = fallback_quote, cache_time = 0 \<rparr>],
      [Primary, Fallback])"
  by (simp add: get_stock_data_def is_cache_valid_def get_yfinance_data_def
      get_alpha_vantage_data_def fallback_env_def global_quote_def float_field_def
      percent_field_def int_field_def fallback_quote_def update_cache_def Let_def)

lemma fallback_parse:
  "get_alpha_vantage_data fallback_env 0 ''IBM'' = Some fallback_quote"
  by (simp add: get_alpha_vantage_data_def fallback_env_def global_quote_def float_field_def
      percent_field_def int_field_def fallback_quote_def)

lemma market_fetch_DOWN:
  "get_stock_data market_env 0 ''DOWN'' Map.empty = (None, Map.empty, [Primary, Fallback])"
  by (simp add: get_stock_data_def is_cache_valid_def get_yfinance_data_def market_env_def
      get_alpha_vantage_data_def Let_def)

text \<open>
  Claim C3: a call that is not answered from the cache calls the primary provider first.
  When the history it returns has at least two bars, the quote takes its price from the
  last bar and its previous close from the bar before, is tagged \<open>yfinance\<close>, and is
  returned and cached without a call of the fallback; when the history has one bar, the
  previous close is the price, so the change is zero. The fallback is called exactly when
  the primary raised or returned an empty history; the quote it yields is then the
  result, tagged \<open>alpha_vantage\<close>, and is cached. When both fail, the result is \<open>None\<close>
  (a value, not an exception) and the cache is unchanged.
\<close>

theorem primary_first_then_fallback:
  assumes miss: "\<not> is_cache_valid c now (ticker @ ''_current'')"
    and res: "get_stock_data e now ticker c = (r, c', calls)"
  shows "calls \<noteq> [] \<and> hd calls = Primary \<and>
     (\<forall>older b2 b1. yfinance e ticker = YfHistory (older @ [b2, b1]) \<longrightarrow>
        calls = [Primary] \<and>
        (\<exists>q. r = Some q \<and> current_price q = Close b1 \<and> previous_close q = Close b2 \<and>
             change q = Close b1 - Close b2 \<and> source q = ''yfinance'')) \<and>
     (\<forall>b. yfinance e ticker = YfHistory [b] \<longrightarrow>
        calls = [Primary] \<and>
        (\<exists>q. r = Some q \<and> current_price q = Close b \<and> previous_close q = Close b \<and>
             change q = 0 \<and> change_percent q = 0 \<and> source q = ''yfinance'')) \<and>
     (Fallback \<in> set calls \<longleftrightarrow>
        yfinance e ticker = YfRaises \<or> yfinance e ticker = YfHistory []) \<and>
     (Fallback \<in> set calls \<longrightarrow> (\<forall>q. r = Some q \<longrightarrow> source q = ''alpha_vantage'')) \<and>
     ((yfinance e ticker = YfRaises \<or> yfinance e ticker = YfHistory []) \<and>
      get_alpha_vantage_data e now ticker = None \<longrightarrow> r = None \<and> c' = c) \<and>
     (\<forall>d. (yfinance e ticker = YfRaises \<or> yfinance e ticker = YfHistory []) \<and>
          get_alpha_vantage_data e now ticker = Some d \<longrightarrow>
        r = Some d \<and> source d = ''alpha_vantage'' \<and> calls = [Primary, Fallback] \<and>
        c' = update_cache c now (ticker @ ''_current'') d) \<and>
     (\<forall>hist. yfinance e ticker = YfHistory hist \<and> hist \<noteq> [] \<longrightarrow>
        (\<exists>q. get_yfinance_data e now ticker = Some q \<and> r = Some q \<and> calls = [Primary] \<and>
             c' = update_cache c now (ticker @ ''_current'') q)) \<and>
     (r = None \<longleftrightarrow>
        (yfinance e ticker = YfRaises \<or> yfinance e ticker = YfHistory []) \<and>
        get_alpha_vantage_data e now ticker = None)"
proof -
  note r = res [unfolded get_stock_data_miss [OF miss]]
  note none = get_yfinance_data_None_iff [of e now ticker]
  have 1: "calls \<noteq> [] \<and> hd calls = Primary"
    using r by (auto split: option.splits)
  have 2: "calls = [Primary] \<and>
        (\<exists>q. r = Some q \<and> current_price q = Close b1 \<and> previous_close q = Close b2 \<and>
             change q = Close b1 - Close b2 \<and> source q = ''yfinance'')"
    if h: "yfinance e ticker = YfHistory (older @ [b2, b1])" for older b2 b1
  proof -
    have "older @ [b2, b1] \<noteq> []" by simp
    from get_yfinance_data_history [OF h this, of now]
    obtain q where q: "get_yfinance_data e now ticker = Some q"
      "current_price q = Close b1" "previous_close q = Close b2"
      "change q = current_price q - previous_close q" "source q = ''yfinance''"
      by (auto simp: nth_append)
    from r q(1) have "calls = [Primary]" "r = Some q" by simp_all
    with q show ?thesis by simp
  qed
  have 3: "calls = [Primary] \<and>
        (\<exists>q. r = Some q \<and> current_price q = Close b \<and> previous_close q = Close b \<and>
             change q = 0 \<and> change_percent q = 0 \<and> source q = ''yfinance'')"
    if h: "yfinance e ticker = YfHistory [b]" for b
  proof -
    have "[b] \<noteq> []" by simp
    from get_yfinance_data_history [OF h this, of now]
    obtain q where q: "get_yfinance_data e now ticker = Some q"
      "current_price q = Close b" "previous_close q = Close b"
      "change q = current_price q - previous_close q"
      "change_percent q = (if previous_close q \<noteq> 0
              then (current_price q - previous_close q) / previous_close q * 100 else 0)"
      "source q = ''yfinance''"
      by auto
    from r q(1) have "calls = [Primary]" "r = Some q" by simp_all
    with q show ?thesis by simp
  qed
  have 4: "Fallback \<in> set calls \<longleftrightarrow>
        yfinance e ticker = YfRaises \<or> yfinance e ticker = YfHistory []"
    using r none by (auto split: option.splits)
  have 5: "\<forall>q. r = Some q \<longrightarrow> source q = ''alpha_vantage''" if "Fallback \<in> set calls"
    using that r get_alpha_vantage_data_fields [of e now ticker]
    by (auto split: option.splits)
  have 6: "r = None \<and> c' = c"
    if "(yfinance e ticker = YfRaises \<or> yfinance e ticker = YfHistory []) \<and>
      get_alpha_vantage_data e now ticker = None"
    using that r none by (auto split: option.splits)
  have 7: "r = Some d \<and> source d = ''alpha_vantage'' \<and> calls = [Primary, Fallback] \<and>
        c' = update_cache c now (ticker @ ''_current'') d"
    if a: "(yfinance e ticker = YfRaises \<or> yfinance e ticker = YfHistory []) \<and>
          get_alpha_vantage_data e now ticker = Some d" for d
  proof -
    from a none have "get_yfinance_data e now ticker = None" by simp
    with a r have "r = Some d" "calls = [Primary, Fallback]"
      "c' = update_cache c now (ticker @ ''_current'') d"
      by simp_all
    moreover from a get_alpha_vantage_data_fields [of e now ticker d]
    have "source d = ''alpha_vantage''" by simp
    ultimately show ?thesis by simp
  qed
  have 8: "\<exists>q. get_yfinance_data e now ticker = Some q \<and> r = Some q \<and> calls = [Primary] \<and>
             c' = update_cache c now (ticker @ ''_current'') q"
    if a: "yfinance e ticker = YfHistory hist \<and> hist \<noteq> []" for hist
  proof -
    from a none obtain q where q: "get_yfinance_data e now ticker = Some q"
      by (cases "get_yfinance_data e now ticker") auto
    with r have "r = Some q" "calls = [Primary]"
      "c' = update_cache c now (ticker @ ''_current'') q"
      by simp_all
    with q show ?thesis by simp
  qed
  have 9: "r = None \<longleftrightarrow>
        (yfinance e ticker = YfRaises \<or> yfinance e ticker = YfHistory []) \<and>
        get_alpha_vantage_data e now ticker = None"
  proof (cases "get_yfinance_data e now ticker")
    case None
    with r none show ?thesis
      by (cases "get_alpha_vantage_data e now ticker") auto
  next
    case (Some q)
    with r none show ?thesis by auto
  qed
  from 1 2 3 4 5 6 7 8 9 show ?thesis by blast
qed

text \<open>
  With a cold cache: two bars closing at 149 and 150 give a quote at 150 with previous
  close 149 from the primary provider alone; when the primary provider raises and the
  fallback answers, the quote of the fallback is the result; and when both fail the
  result is \<open>None\<close>.
\<close>

theorem primary_first_then_fallback_witness:
  "\<not> is_cache_valid Map.empty 0 (''AAPL'' @ ''_current'') \<and>
   get_stock_data two_bar_env 0 ''AAPL'' Map.empty =
     (Some two_bar_quote, [''AAPL_current'' \<mapsto> \<lparr> data = two_bar_quote, cache_time = 0 \<rparr>],
      [Primary]) \<and>
   (\<exists>q. Some two_bar_quote = Some q \<and>
        current_price q = Close \<lparr> Open = 149, High = 151, Low = 148, Close = 150, Volume = 1000 \<rparr> \<and>
        previous_close q = Close \<lparr> Open = 148, High = 150, Low = 147, Close = 149, Volume = 900 \<rparr> \<and>
        change q = Close \<lparr> Open = 149, High = 151, Low = 148, Close = 150, Volume = 1000 \<rparr>
                 - Close \<lparr> Open = 148, High = 150, Low = 147, Close = 149, Volume = 900 \<rparr> \<and>
        source q = ''yfinance'') \<and>
   yfinance fallback_env ''IBM'' = YfRaises \<and>
   get_alpha_vantage_data fallback_env 0 ''IBM'' = Some fallback_quote \<and>
   fst (get_stock_data fallback_env 0 ''IBM'' Map.empty) = Some fallback_quote \<and>
   snd (snd (get_stock_data fallback_env 0 ''IBM'' Map.empty)) = [Primary, Fallback] \<and>
   fst (snd (get_stock_data fallback_env 0 ''IBM'' Map.empty))
     = update_cache Map.empty 0 (''IBM'' @ ''_current'') fallback_quote \<and>
   source fallback_quote = ''alpha_vantage'' \<and>
   yfinance market_env ''DOWN'' = YfRaises \<and>
   get_alpha_vantage_data market_env 0 ''DOWN'' = None \<and>
   fst (get_stock_data market_env 0 ''DOWN'' Map.empty) = None \<and>
   fst (snd (get_stock_data market_env 0 ''DOWN'' Map.empty)) = Map.empty"
proof -
  have m: "\<not> is_cache_valid Map.empty 0 (t @ ''_current'')" for t
    by (simp add: is_cache_valid_def)
  have triple: "x = (fst x, fst (snd x), snd (snd x))" for x :: "quote option \<times> cache \<times> provider list"
    by simp
  have h: "yfinance two_bar_env ''AAPL'' = YfHistory ([] @
       [\<lparr> Open = 148, High = 150, Low = 147, Close = 149, Volume = 900 \<rparr>,
        \<lparr> Open = 149, High = 151, Low = 148, Close = 150, Volume = 1000 \<rparr>])"
    by (simp add: two_bar_env_def)
  from primary_first_then_fallback [OF m two_bar_fetch] h
  have primary: "\<exists>q. Some two_bar_quote = Some q \<and>
        current_price q = Close \<lparr> Open = 149, High = 151, Low = 148, Close = 150, Volume = 1000 \<rparr> \<and>
        previous_close q = Close \<lparr> Open = 148, High = 150, Low = 147, Close = 149, Volume = 900 \<rparr> \<and>
        change q = Close \<lparr> Open = 149, High = 151, Low = 148, Close = 150, Volume = 1000 \<rparr>
                 - Close \<lparr> Open = 148, High = 150, Low = 147, Close = 149, Volume = 900 \<rparr> \<and>
        source q = ''yfinance''"
    by blast
  have fy: "yfinance fallback_env ''IBM'' = YfRaises"
    by (simp add: fallback_env_def)
  from primary_first_then_fallback [OF m triple, of fallback_env "''IBM''"] fy fallback_parse
  have fallback: "fst (get_stock_data fallback_env 0 ''IBM'' Map.empty) = Some fallback_quote \<and>
     source fallback_quote = ''alpha_vantage'' \<and>
     snd (snd (get_stock_data fallback_env 0 ''IBM'' Map.empty)) = [Primary, Fallback] \<and>
     fst (snd (get_stock_data fallback_env 0 ''IBM'' Map.empty))
       = update_cache Map.empty 0 (''IBM'' @ ''_current'') fallback_quote"
    by blast
  have dy: "yfinance market_env ''DOWN'' = YfRaises"
    by (simp add: market_env_def)
  have da: "get_alpha_vantage_data market_env 0 ''DOWN'' = None"
    by (simp add: get_alpha_vantage_data_def market_env_def)
  from primary_first_then_fallback [OF m triple, of market_env "''DOWN''"] dy da
  have both: "fst (get_stock_data market_env 0 ''DOWN'' Map.empty) = None \<and>
     fst (snd (get_stock_data market_env 0 ''DOWN'' Map.empty)) = Map.empty"
    by blast
  from primary fallback both fy fallback_parse dy da two_bar_fetch show ?thesis
    by (simp add: is_cache_valid_def)
qed

text \<open>
  Claim C7 asks that every quote, from either provider, satisfies the relation between
  change, percentage, price and previous close. On the fallback path the four fields are
  read from the answer of the provider, which rounds to four decimals: for a price of 150
  after a close of 149 it reports 0.6711 percent, and 100/149 differs from that by more
  than one part in a million.
\<close>

theorem fallback_percent_outside_tolerance:
  "get_stock_data fallback_env 0 ''IBM'' Map.empty =
     (Some fallback_quote, [''IBM_current'' \<mapsto> \<lparr> data = fallback_quote, cache_time = 0 \<rparr>],
      [Primary, Fallback]) \<and>
   previous_close fallback_quote \<noteq> 0 \<and>
   \<bar>change_percent fallback_quote -
      (current_price fallback_quote - previous_close fallback_quote)
        / previous_close fallback_quote * 100\<bar>
     > 1 / 10 ^ 6 *
       \<bar>(current_price fallback_quote - previous_close fallback_quote)
          / previous_close fallback_quote * 100\<bar>"
  by (simp add: fallback_fetch) (simp add: fallback_quote_def)

text \<open>
  Claim C7, amended: in a cache whose quotes of the primary provider satisfy the relation
  (the empty cache does), every quote that \<open>get_stock_data\<close> returns with the source
  \<open>yfinance\<close> satisfies it, exactly, and the cache after the call is again such a cache.
  A quote from the fallback carries the fields \<open>05. price\<close>, \<open>08. previous close\<close>,
  \<open>09. change\<close> and \<open>10. change percent\<close> of the answer as \<open>float\<close> reads them.
\<close>

theorem primary_quotes_consistent:
  assumes inv: "primary_entries_ok c"
    and res: "get_stock_data e now ticker c = (Some q, c', calls)"
  shows "(source q = ''yfinance'' \<longrightarrow> quote_invariant q) \<and> primary_entries_ok c' \<and>
     (Fallback \<in> set calls \<longrightarrow>
        source q = ''alpha_vantage'' \<and>
        (\<exists>fields. alpha_vantage e ticker = AvResponse 200 (AvData (Some fields)) \<and>
            float_field e fields ''05. price'' = Some (current_price q) \<and>
            float_field e fields ''08. previous close'' = Some (previous_close q) \<and>
            float_field e fields ''09. change'' = Some (change q) \<and>
            percent_field e fields ''10. change percent'' = Some (change_percent q)))"
proof (cases "is_cache_valid c now (ticker @ ''_current'')")
  case True
  then obtain entry where e: "c (ticker @ ''_current'') = Some entry"
    by (auto simp: is_cache_valid_def split: option.splits)
  with True res have "q = data entry" "c' = c" "calls = []"
    by (auto simp: get_stock_data_def)
  with inv e show ?thesis
    by (auto simp: primary_entries_ok_def)
next
  case False
  note r = res [unfolded get_stock_data_miss [OF False]]
  show ?thesis
  proof (cases "get_yfinance_data e now ticker")
    case (Some d)
    with r have eq: "q = d" "c' = update_cache c now (ticker @ ''_current'') d" "calls = [Primary]"
      by auto
    from get_yfinance_data_invariant [OF Some] have "quote_invariant d" by simp
    with eq inv show ?thesis
      by (simp add: primary_entries_ok_update)
  next
    case None
    with r have av: "get_alpha_vantage_data e now ticker = Some q"
      and eq: "c' = update_cache c now (ticker @ ''_current'') q"
      by (auto split: option.splits)
    from get_alpha_vantage_data_fields [OF av] have src: "source q = ''alpha_vantage''" by simp
    then have "source q \<noteq> ''yfinance''" by simp
    with eq inv have "primary_entries_ok c'"
      by (simp add: primary_entries_ok_update)
    with get_alpha_vantage_data_fields [OF av] src show ?thesis
      by auto
  qed
qed

text \<open>
  From the empty cache, the quote built from the bars at 149 and 150 has change 1 and
  percentage 100/149, and the cache that holds it is again consistent.
\<close>

theorem primary_quotes_consistent_witness:
  "primary_entries_ok Map.empty \<and>
   get_stock_data two_bar_env 0 ''AAPL'' Map.empty =
     (Some two_bar_quote, [''AAPL_current'' \<mapsto> \<lparr> data = two_bar_quote, cache_time = 0 \<rparr>],
      [Primary]) \<and>
   source two_bar_quote = ''yfinance'' \<and> quote_invariant two_bar_quote \<and>
   change two_bar_quote = 1 \<and> change_percent two_bar_quote = 100 / 149 \<and>
   primary_entries_ok [''AAPL_current'' \<mapsto> \<lparr> data = two_bar_quote, cache_time = 0 \<rparr>]"
proof -
  have 0: "primary_entries_ok Map.empty"
    by (simp add: primary_entries_ok_def)
  have s: "source two_bar_quote = ''yfinance''" "change two_bar_quote = 1"
    "change_percent two_bar_quote = 100 / 149"
    by (simp_all add: two_bar_quote_def)
  from primary_quotes_consistent [OF 0 two_bar_fetch] 0 s two_bar_fetch show ?thesis
    by simp
qed

section \<open>The price monitor\<close>

text \<open>The loop body on a symbol whose quote arrived, and on one whose fetch failed.\<close>

lemma price_monitor_step_fetched:
  assumes "get_stock_data e now ticker (cache b) = (Some q, c', calls)"
  shows "price_monitor_step e now ticker b =
     (let base = baseline b ticker q; pct = pct_change (current_price q) base in
      if base \<noteq> 0 \<and> \<bar>pct\<bar> \<ge> 2 then
        (if alert_delivered e ticker q pct
         then (Continues, b\<lparr> cache := c', sent_alerts := sent_alerts b @ [(ticker, q, pct)],
                  last_prices := (last_prices b)(ticker \<mapsto> current_price q) \<rparr>)
         else (Raises, b\<lparr> cache := c', sent_alerts := sent_alerts b @ [(ticker, q, pct)] \<rparr>))
      else (Continues, b\<lparr> cache := c',
                last_prices := (last_prices b)(ticker \<mapsto> current_price q) \<rparr>))"
  using assms
  by (simp add: price_monitor_step_def Let_def py_truediv_def baseline_def pct_change_def)

lemma price_monitor_step_failed:
  assumes "fst (get_stock_data e now ticker (cache b)) = None"
  shows "price_monitor_step e now ticker b = (Continues, b)"
proof -
  obtain c' calls where g: "get_stock_data e now ticker (cache b) = (None, c', calls)"
    using assms by (cases "get_stock_data e now ticker (cache b)") auto
  from get_stock_data_None_cache [OF g] have "c' = cache b" .
  with g show ?thesis
    by (simp add: price_monitor_step_def)
qed

lemma price_monitor_loop_delivered:
  assumes "\<And>t q p. alert_delivered e t q p"
  shows "fst (price_monitor_loop e now xs b) = Continues"
proof (induction xs arbitrary: b)
  case Nil
  show ?case by simp
next
  case (Cons x xs)
  have "fst (price_monitor_step e now x b) = Continues"
    using assms
    by (auto simp: price_monitor_step_def Let_def py_truediv_def split: prod.splits option.splits)
  then obtain b' where "price_monitor_step e now x b = (Continues, b')"
    by (cases "price_monitor_step e now x b") auto
  with Cons.IH [of b'] show ?case by simp
qed

text \<open>The fetches of the market scenario.\<close>

lemma market_fetch_103:
  assumes "t \<noteq> ''DOWN''" and "t \<noteq> ''BBB''"
  shows "get_stock_data market_env 0 t Map.empty =
     (Some (market_quote t 103 3),
      [t @ ''_current'' \<mapsto> \<lparr> data = market_quote t 103 3, cache_time = 0 \<rparr>], [Primary])"
  using assms
  by (simp add: get_stock_data_def is_cache_valid_def get_yfinance_data_def market_env_def
      market_quote_def day_bar_def update_cache_def py_truediv_def Let_def)

lemma market_fetch_BBB:
  assumes "c ''BBB_current'' = None"
  shows "get_stock_data market_env 0 ''BBB'' c =
     (Some (market_quote ''BBB'' 101 1),
      c(''BBB_current'' \<mapsto> \<lparr> data = market_quote ''BBB'' 101 1, cache_time = 0 \<rparr>), [Primary])"
  using assms
  by (simp add: get_stock_data_def is_cache_valid_def get_yfinance_data_def market_env_def
      market_quote_def day_bar_def update_cache_def py_truediv_def Let_def)

lemma discord_down_fetch:
  "get_stock_data discord_down_env now t c = get_stock_data market_env now t c"
proof -
  have yf: "get_yfinance_data discord_down_env now t = get_yfinance_data market_env now t"
    by (simp add: get_yfinance_data_def discord_down_env_def)
  have av: "get_alpha_vantage_data discord_down_env now t = get_alpha_vantage_data market_env now t"
    by (simp add: get_alpha_vantage_data_def discord_down_env_def market_env_def)
  show ?thesis
    unfolding get_stock_data_def yf av by (rule refl)
qed

text \<open>The tick of the scenario in which the delivery of every alert raises.\<close>

lemma discord_down_fetch_AAA:
  "get_stock_data discord_down_env 0 ''AAA'' (cache bot_ab) =
     (Some (market_quote ''AAA'' 103 3),
      [''AAA_current'' \<mapsto> \<lparr> data = market_quote ''AAA'' 103 3, cache_time = 0 \<rparr>], [Primary])"
  using market_fetch_103 [of "''AAA''"] by (simp add: discord_down_fetch bot_ab_def)

lemma discord_down_step:
  "price_monitor_step discord_down_env 0 ''AAA'' bot_ab =
     (Raises,
      bot_ab \<lparr> cache := [''AAA_current'' \<mapsto> \<lparr> data = market_quote ''AAA'' 103 3, cache_time = 0 \<rparr>],
               sent_alerts := [(''AAA'', market_quote ''AAA'' 103 3, 3)] \<rparr>)"
  unfolding price_monitor_step_fetched [OF discord_down_fetch_AAA]
  by (simp add: baseline_def pct_change_def bot_ab_def market_quote_def discord_down_env_def)

lemma discord_down_tick:
  "price_monitor discord_down_env 0 bot_ab =
     (ErrorLogged,
      bot_ab \<lparr> cache := [''AAA_current'' \<mapsto> \<lparr> data = market_quote ''AAA'' 103 3, cache_time = 0 \<rparr>],
               sent_alerts := [(''AAA'', market_quote ''AAA'' 103 3, 3)] \<rparr>)"
  using discord_down_step by (simp add: price_monitor_def) (simp add: bot_ab_def)




text \<open>
  Claim C10: when the stored baseline of a symbol is 0 and its quote arrives, the step
  computes no percentage and sends no alert (nothing is divided, nothing raises), the
  baseline becomes the current price, and the loop goes on to the next symbol from that
  state.
\<close>

theorem zero_baseline_skips_alert:
  assumes fetch: "get_stock_data e now ticker (cache b) = (Some q, c', calls)"
    and zero: "last_prices b ticker = Some 0"
  shows "price_monitor_step e now ticker b =
           (Continues, b\<lparr> cache := c',
               last_prices := (last_prices b)(ticker \<mapsto> current_price q) \<rparr>) \<and>
         price_monitor_loop e now (ticker # rest) b =
           price_monitor_loop e now rest
             (b\<lparr> cache := c', last_prices := (last_prices b)(ticker \<mapsto> current_price q) \<rparr>)"
  using assms
  by (simp add: price_monitor_step_def Let_def)

text \<open>A stored baseline of 0 and a quote at 103: no alert, and the baseline becomes 103.\<close>

theorem zero_baseline_skips_alert_witness:
  "last_prices bot_down ''ZERO'' = Some 0 \<and>
   get_stock_data market_env 0 ''ZERO'' (cache bot_down) =
     (Some (market_quote ''ZERO'' 103 3),
      [''ZERO_current'' \<mapsto> \<lparr> data = market_quote ''ZERO'' 103 3, cache_time = 0 \<rparr>], [Primary]) \<and>
   fst (price_monitor_step market_env 0 ''ZERO'' bot_down) = Continues \<and>
   sent_alerts (snd (price_monitor_step market_env 0 ''ZERO'' bot_down)) = [] \<and>
   last_prices (snd (price_monitor_step market_env 0 ''ZERO'' bot_down)) ''ZERO'' = Some 103"
proof -
  have z: "last_prices bot_down ''ZERO'' = Some 0"
    by (simp add: bot_down_def)
  have f: "get_stock_data market_env 0 ''ZERO'' (cache bot_down) =
     (Some (market_quote ''ZERO'' 103 3),
      [''ZERO_current'' \<mapsto> \<lparr> data = market_quote ''ZERO'' 103 3, cache_time = 0 \<rparr>], [Primary])"
    using market_fetch_103 [of "''ZERO''"] by (simp add: bot_down_def)
  have cur: "current_price (market_quote ''ZERO'' 103 3) = 103"
    by (simp add: market_quote_def)
  from zero_baseline_skips_alert [OF f z, of "[]"] z f cur show ?thesis
    by (simp add: bot_down_def)
qed

text \<open>
  Claim C5 asks that no failure while one symbol is handled keeps the later symbols from
  being evaluated. The handler of \<open>price_monitor\<close> encloses the whole loop: with \<open>AAA\<close>
  and \<open>BBB\<close> tracked at a baseline of 100, \<open>AAA\<close> at 103 and an alert whose delivery
  raises, the tick ends at \<open>AAA\<close>. \<open>BBB\<close> is not fetched, although its quote at 101 is
  there to be had, and its baseline stays at 100.
\<close>

theorem later_symbol_skipped_after_delivery_error:
  "price_monitor discord_down_env 0 bot_ab =
     (ErrorLogged,
      bot_ab \<lparr> cache := [''AAA_current'' \<mapsto> \<lparr> data = market_quote ''AAA'' 103 3, cache_time = 0 \<rparr>],
               sent_alerts := [(''AAA'', market_quote ''AAA'' 103 3, 3)] \<rparr>) \<and>
   last_prices (snd (price_monitor discord_down_env 0 bot_ab)) ''BBB'' = Some 100 \<and>
   cache (snd (price_monitor discord_down_env 0 bot_ab)) ''BBB_current'' = None \<and>
   fst (get_stock_data discord_down_env 0 ''BBB''
          (cache (snd (price_monitor discord_down_env 0 bot_ab))))
     = Some (market_quote ''BBB'' 101 1)"
  unfolding discord_down_tick
  by (simp add: discord_down_fetch market_fetch_BBB) (simp add: bot_ab_def)

text \<open>
  Claim C5, amended: a symbol whose quote fetch fails is passed over, and the tick
  continues with the later symbols exactly as if that symbol were not tracked. An
  exception raised while a symbol is handled after its fetch (the delivery of its alert)
  ends the tick at that symbol: it is caught and logged, the tick returns, and the later
  symbols wait for the next tick. When no delivery raises, every tick completes.
\<close>

theorem fetch_failure_isolated:
  "(fst (get_stock_data e now ticker (cache b)) = None \<longrightarrow>
      price_monitor_loop e now (ticker # rest) b = price_monitor_loop e now rest b) \<and>
   (price_monitor_step e now ticker b = (Raises, b') \<longrightarrow>
      price_monitor_loop e now (ticker # rest) b = (Raises, b') \<and>
      (tracked_stocks b = ticker # rest \<longrightarrow> price_monitor e now b = (ErrorLogged, b'))) \<and>
   ((\<forall>t q p. alert_delivered e t q p) \<longrightarrow> fst (price_monitor e now b) = Completed)"
proof -
  have 1: "price_monitor_loop e now (ticker # rest) b = price_monitor_loop e now rest b"
    if "fst (get_stock_data e now ticker (cache b)) = None"
    using price_monitor_step_failed [OF that] by simp
  have 2: "price_monitor_loop e now (ticker # rest) b = (Raises, b') \<and>
      (tracked_stocks b = ticker # rest \<longrightarrow> price_monitor e now b = (ErrorLogged, b'))"
    if "price_monitor_step e now ticker b = (Raises, b')"
    using that by (simp add: price_monitor_def)
  have 3: "fst (price_monitor e now b) = Completed" if "\<forall>t q p. alert_delivered e t q p"
  proof -
    from that have "fst (price_monitor_loop e now (tracked_stocks b) b) = Continues"
      by (intro price_monitor_loop_delivered) simp
    then show ?thesis
      by (auto simp: price_monitor_def split: prod.splits outcome.splits)
  qed
  from 1 2 3 show ?thesis by blast
qed

text \<open>
  With \<open>DOWN\<close> and \<open>BBB\<close> tracked, the fetch for \<open>DOWN\<close> fails and the tick goes on:
  \<open>BBB\<close> is fetched and its baseline becomes 101.
\<close>

theorem fetch_failure_isolated_witness:
  "fst (get_stock_data market_env 0 ''DOWN'' (cache bot_down)) = None \<and>
   price_monitor_loop market_env 0 (''DOWN'' # [''BBB'']) bot_down
     = price_monitor_loop market_env 0 [''BBB''] bot_down \<and>
   fst (price_monitor market_env 0 bot_down) = Completed \<and>
   last_prices (snd (price_monitor_loop market_env 0 [''BBB''] bot_down)) ''BBB'' = Some 101"
proof -
  have d: "fst (get_stock_data market_env 0 ''DOWN'' (cache bot_down)) = None"
    using market_fetch_DOWN by (simp add: bot_down_def)
  have a: "\<forall>t q p. alert_delivered market_env t q p"
    by (simp add: market_env_def)
  have f: "get_stock_data market_env 0 ''BBB'' (cache bot_down) =
     (Some (market_quote ''BBB'' 101 1),
      [''BBB_current'' \<mapsto> \<lparr> data = market_quote ''BBB'' 101 1, cache_time = 0 \<rparr>], [Primary])"
    using market_fetch_BBB [of Map.empty] by (simp add: bot_down_def)
  have b: "last_prices (snd (price_monitor_loop market_env 0 [''BBB''] bot_down)) ''BBB'' = Some 101"
    by (simp add: price_monitor_step_fetched [OF f] Let_def baseline_def pct_change_def)
      (simp add: market_quote_def bot_down_def)
  from fetch_failure_isolated [of market_env 0 "''DOWN''" bot_down "[''BBB'']"] d a b
  show ?thesis by simp
qed

section \<open>The tracked symbols on disk\<close>

lemma load_writable: "writable (snd (load_tracked_stocks d now)) = writable d"
  by (simp add: load_tracked_stocks_def save_tracked_stocks_def split: file_content.splits)

text \<open>
  Claim C9 asks that adding and then removing a symbol restores the persisted list for
  every symbol. For a symbol that is already tracked the addition changes nothing and the
  removal takes the symbol out: the list \<open>[AAPL]\<close> becomes empty.
\<close>

theorem add_then_remove_tracked_present:
  "fst (load_tracked_stocks aapl_disk 0) = [''AAPL''] \<and>
   fst (load_tracked_stocks
          (snd (remove_tracked_stock (snd (add_tracked_stock aapl_disk 1 ''AAPL'')) 2 ''AAPL'')) 3)
     = []"
  by (simp add: aapl_disk_def load_tracked_stocks_def add_tracked_stock_def
      remove_tracked_stock_def save_tracked_stocks_def upper_def upper_char_def)

text \<open>
  Claim C9, amended: when the file can be written and the persisted list holds neither the
  symbol as given nor its upper-case form, \<open>add_tracked_stock\<close> followed by
  \<open>remove_tracked_stock\<close> with that symbol both report success, the file written by the
  removal holds exactly the list from before the addition, and loading it gives that list.
\<close>

theorem add_then_remove_tracked:
  assumes w: "writable d"
    and fresh: "ticker \<notin> set (fst (load_tracked_stocks d t0))"
      "upper ticker \<notin> set (fst (load_tracked_stocks d t0))"
    and add: "add_tracked_stock d t1 ticker = (r1, d1)"
    and rem: "remove_tracked_stock d1 t2 ticker = (r2, d2)"
  shows "r1 \<and> r2 \<and>
     tracked_stocks_file d1 =
       Document \<lparr> stocks = Some (fst (load_tracked_stocks d t0) @ [upper ticker]),
                  last_updated = t1, count = Suc (length (fst (load_tracked_stocks d t0))) \<rparr> \<and>
     tracked_stocks_file d2 =
       Document \<lparr> stocks = Some (fst (load_tracked_stocks d t0)),
                  last_updated = t2, count = length (fst (load_tracked_stocks d t0)) \<rparr> \<and>
     fst (load_tracked_stocks d2 t3) = fst (load_tracked_stocks d t0)"
proof -
  define xs where "xs = fst (load_tracked_stocks d t0)"
  have xs1: "fst (load_tracked_stocks d t1) = xs"
    by (simp add: xs_def load_tracked_stocks_def split: file_content.splits)
  have w1: "writable (snd (load_tracked_stocks d t1))"
    using w by (simp add: load_writable)
  from add fresh(1) have r1: "r1"
    and d1: "d1 = snd (save_tracked_stocks (snd (load_tracked_stocks d t1)) t1 (xs @ [upper ticker]))"
    using w1 xs1
    by (auto simp: add_tracked_stock_def xs_def save_tracked_stocks_def split: prod.splits)
  have f1: "tracked_stocks_file d1 = Document \<lparr> stocks = Some (xs @ [upper ticker]),
        last_updated = t1, count = Suc (length xs) \<rparr>" and wd1: "writable d1"
    using w1 by (simp_all add: d1 save_tracked_stocks_def)
  have l2: "load_tracked_stocks d1 t2 = (xs @ [upper ticker], d1)"
    using f1 by (simp add: load_tracked_stocks_def)
  have rm: "remove1 (upper ticker) (xs @ [upper ticker]) = xs"
    using fresh(2) by (simp add: xs_def remove1_append)
  from rem l2 rm wd1 have r2: "r2" and d2: "d2 = snd (save_tracked_stocks d1 t2 xs)"
    by (auto simp: remove_tracked_stock_def save_tracked_stocks_def)
  have f2: "tracked_stocks_file d2 = Document \<lparr> stocks = Some xs,
        last_updated = t2, count = length xs \<rparr>"
    using wd1 by (simp add: d2 save_tracked_stocks_def)
  then have "fst (load_tracked_stocks d2 t3) = xs"
    by (simp add: load_tracked_stocks_def)
  with r1 r2 f1 f2 show ?thesis
    by (simp add: xs_def)
qed

text \<open>Adding and removing \<open>MSFT\<close> on a disk that tracks \<open>AAPL\<close> writes \<open>[AAPL]\<close> back.\<close>

theorem add_then_remove_tracked_witness:
  "writable aapl_disk \<and> ''MSFT'' \<notin> set (fst (load_tracked_stocks aapl_disk 0)) \<and>
   upper ''MSFT'' \<notin> set (fst (load_tracked_stocks aapl_disk 0)) \<and>
   fst (load_tracked_stocks
          (snd (remove_tracked_stock (snd (add_tracked_stock aapl_disk 1 ''MSFT'')) 2 ''MSFT'')) 3)
     = fst (load_tracked_stocks aapl_disk 0) \<and>
   tracked_stocks_file
          (snd (remove_tracked_stock (snd (add_tracked_stock aapl_disk 1 ''MSFT'')) 2 ''MSFT''))
     = Document \<lparr> stocks = Some [''AAPL''], last_updated = 2, count = 1 \<rparr>"
proof -
  have w: "writable aapl_disk" by (simp add: aapl_disk_def)
  have l: "fst (load_tracked_stocks aapl_disk 0) = [''AAPL'']"
    by (simp add: aapl_disk_def load_tracked_stocks_def)
  have f1: "''MSFT'' \<notin> set (fst (load_tracked_stocks aapl_disk 0))" by (simp add: l)
  have f2: "upper ''MSFT'' \<notin> set (fst (load_tracked_stocks aapl_disk 0))"
    by (simp add: l upper_def upper_char_def)
  from add_then_remove_tracked [OF w f1 f2 surjective_pairing surjective_pairing, of 1 2 3]
    w f1 f2 l
  show ?thesis by simp
qed

section \<open>The technical indicators\<close>

subsection \<open>Series\<close>

lemma iloc_last:
  assumes "xs \<noteq> []"
  shows "iloc xs (- 1) = Some (last xs)"
proof -
  from assms have pos: "0 < length xs" by simp
  then have "nat (int (length xs) + - 1) = length xs - 1" by simp
  with assms pos show ?thesis
    by (simp add: iloc_def last_conv_nth Suc_le_eq)
qed

lemma iloc_minus5:
  assumes "5 \<le> length xs"
  shows "\<exists>v. iloc xs (- 5) = Some v"
  using assms by (simp add: iloc_def)

text \<open>The operations on series keep the length.\<close>

lemma length_rolling [simp]: "length (rolling w f xs) = length xs"
  by (simp add: rolling_def)

lemma length_column [simp]: "length (column f df) = length df"
  by (simp add: column_def)

lemma length_diff [simp]: "length (diff xs) = length xs"
  by (cases xs) (simp_all add: diff_def)

lemma length_pct_change_series [simp]: "length (pct_change_series xs) = length xs"
  by (cases xs) (simp_all add: pct_change_series_def)

lemma length_series_where [simp]: "length (series_where cond other xs) = length xs"
  by (simp add: series_where_def)

text \<open>
  The last position of a rolling aggregation: \<open>NaN\<close> when the series is shorter than the
  window, else the aggregation of the last \<open>w\<close> values when they are all finite.
\<close>

lemma last_rolling:
  assumes "xs \<noteq> []"
  shows "last (rolling w f xs) =
     (if length xs < w then NaN
      else (case finite_values (drop (length xs - w) xs) of None \<Rightarrow> NaN | Some vs \<Rightarrow> f vs))"
proof -
  from assms obtain n where n: "length xs = Suc n"
    by (cases xs) auto
  have "last (rolling w f xs) = rolling w f xs ! n"
    using n by (simp add: last_conv_nth[of "rolling w f xs"] assms flip: length_0_conv)
  also have "\<dots> = (if Suc n < w then NaN
              else (case finite_values (take w (drop (Suc n - w) xs)) of
                      None \<Rightarrow> NaN | Some vs \<Rightarrow> f vs))"
    using n by (simp add: rolling_def del: upt_Suc)
  finally show ?thesis
    using n by simp
qed

lemma rolling_nonempty:
  assumes "xs \<noteq> []"
  shows "rolling w f xs \<noteq> []"
  using assms length_rolling [of w f xs] by (metis length_0_conv)

lemma iloc_rolling:
  assumes "xs \<noteq> []"
  shows "iloc (rolling w f xs) (- 1) = Some (last (rolling w f xs))"
  using rolling_nonempty [OF assms] by (rule iloc_last)

lemma last_rolling_short:
  assumes "xs \<noteq> []" and "length xs < w"
  shows "last (rolling w f xs) = NaN"
  using last_rolling [OF assms(1), of w f] assms(2) by simp

lemma column_nonempty: "df \<noteq> [] \<Longrightarrow> column f df \<noteq> []"
  by (simp add: column_def)

lemma np_div_NaN [simp]: "np_div x NaN = NaN"
  by (cases x) simp_all

subsection \<open>The parts of the computation on a non-empty series\<close>

text \<open>
  On a non-empty series no part raises: every \<open>iloc[-1]\<close> finds a last position. The
  unguarded parts always add their keys.
\<close>

lemma support_resistance_result:
  assumes "df \<noteq> []"
  shows "support_resistance df ind =
            Some (ind(''resistance_level'' \<mapsto> Float (last (rolling 20 window_max (column High df))),
                      ''support_level'' \<mapsto> Float (last (rolling 20 window_min (column Low df)))))"
  using assms by (simp add: support_resistance_def iloc_rolling column_nonempty)

lemma volume_analysis_result:
  assumes "df \<noteq> []"
  shows "volume_analysis df ind =
     Some (let volume_ratio = np_div (last (column (\<lambda>b. real_of_int (Volume b)) df))
                                 (last (rolling 10 mean (column (\<lambda>b. real_of_int (Volume b)) df)))
           in ind(''volume_ratio'' \<mapsto> Float volume_ratio,
                  ''volume_signal'' \<mapsto> Str (if np_gt volume_ratio (Finite (3 / 2)) then ''high''
                                          else ''normal'')))"
  using assms
  by (simp add: volume_analysis_def iloc_rolling iloc_last column_nonempty Let_def)

lemma volatility_result:
  assumes "df \<noteq> []"
  shows "volatility df ind = Some (ind(''volatility'' \<mapsto>
     Float (np_mul (last (rolling 10 std (pct_change_series (column Close df)))) (Finite 100))))"
proof -
  have "pct_change_series (column Close df) \<noteq> []"
    using assms length_pct_change_series [of "column Close df"] length_column [of Close df]
    by (metis length_0_conv)
  then show ?thesis
    by (simp add: volatility_def iloc_rolling)
qed

lemma price_momentum_keys:
  assumes "price_momentum df ind = Some ind'" and "k \<noteq> ''momentum_5d''"
  shows "ind' k = ind k"
  using assms
  by (auto simp: price_momentum_def split: if_splits Option.bind_splits)

lemma price_momentum_some:
  "\<exists>ind'. price_momentum df ind = Some ind'"
proof (cases "5 \<le> length df")
  case True
  then have ne: "column Close df \<noteq> []" by (auto simp: column_def)
  from True iloc_minus5 [of "column Close df"]
  obtain p where p: "iloc (column Close df) (- 5) = Some p" by auto
  from True p iloc_last [OF ne] show ?thesis
    by (simp add: price_momentum_def)
next
  case False
  then show ?thesis by (simp add: price_momentum_def)
qed

lemma moving_averages_result:
  assumes "df \<noteq> []"
  shows "moving_averages df ind =
      Some (let c = last (column Close df);
                ma20 = last (rolling 20 mean (column Close df));
                ma10 = last (rolling 10 mean (column Close df));
                ma5 = last (rolling 5 mean (column Close df));
                ind1 = (if 20 \<le> length df
                        then ind(''ma20'' \<mapsto> Float ma20,
                                 ''ma20_trend'' \<mapsto> Str (if np_gt c ma20 then ''bullish'' else ''bearish''))
                        else ind);
                ind2 = (if 10 \<le> length df
                        then ind1(''ma10'' \<mapsto> Float ma10,
                                  ''ma10_trend'' \<mapsto> Str (if np_gt c ma10 then ''bullish'' else ''bearish''))
                        else ind1)
            in if 5 \<le> length df
               then ind2(''ma5'' \<mapsto> Float ma5,
                         ''ma5_trend'' \<mapsto> Str (if np_gt c ma5 then ''bullish'' else ''bearish''))
               else ind2)"
  using assms
  by (simp add: moving_averages_def Let_def iloc_rolling iloc_last column_nonempty)

lemma rsi_calculation_keys:
  assumes "rsi_calculation df ind = Some ind'" and "k \<noteq> ''rsi''" and "k \<noteq> ''rsi_signal''"
  shows "ind' k = ind k"
  using assms
  by (auto simp: rsi_calculation_def Let_def split: if_splits Option.bind_splits)

subsection \<open>Gains and losses of a strictly increasing series\<close>

lemma last_map2:
  assumes "length xs = length ys" and "xs \<noteq> []"
  shows "last (map2 f xs ys) = f (last xs) (last ys)"
proof -
  from assms have ys: "ys \<noteq> []" by auto
  from assms have z: "zip xs ys \<noteq> []" by (cases xs; cases ys) auto
  have "last (map2 f xs ys) = map2 f xs ys ! (length xs - 1)"
    using z assms(1) by (simp add: last_conv_nth)
  also have "\<dots> = f (xs ! (length xs - 1)) (ys ! (length ys - 1))"
    using assms by (cases xs) auto
  finally show ?thesis
    using assms(2) ys by (simp add: last_conv_nth)
qed

lemma finite_values_map_Finite [simp]: "finite_values (map Finite xs) = Some xs"
  by (induction xs) simp_all

lemma column_map: "column f df = map Finite (map f df)"
  by (simp add: column_def)

lemma diff_map_Finite:
  "diff (map Finite (c # cs)) = NaN # map Finite (map2 (\<lambda>b a. b - a) cs (c # cs))"
proof -
  have "map2 (\<lambda>b a. np_sub b a) (map Finite xs) (map Finite ys)
          = map Finite (map2 (\<lambda>b a. b - a) xs ys)" for xs ys
    by (induction xs ys rule: list_induct2') (simp_all add: np_sub_def)
  from this [of cs "c # cs"] show ?thesis
    by (simp add: diff_def)
qed

lemma increasing_deltas:
  assumes "sorted_wrt (<) (c # cs)"
  shows "\<forall>d \<in> set (map2 (\<lambda>b a. b - a) cs (c # cs)). (0::real) < d"
  using assms
proof (induction cs arbitrary: c)
  case Nil
  show ?case by simp
next
  case (Cons x xs)
  from Cons.prems have "c < x" and "sorted_wrt (<) (x # xs)" by auto
  with Cons.IH [of x] show ?case by auto
qed

lemma gains_of_increasing:
  assumes "\<forall>d \<in> set ds. (0::real) < d"
  shows "series_where (\<lambda>d. np_gt d (Finite 0)) (Finite 0) (NaN # map Finite ds)
           = map Finite (0 # ds)"
  using assms by (simp add: series_where_def)

lemma losses_of_increasing:
  assumes "\<forall>d \<in> set ds. (0::real) < d"
  shows "map np_neg (series_where (\<lambda>d. np_lt d (Finite 0)) (Finite 0) (NaN # map Finite ds))
           = map Finite (0 # map (\<lambda>d. 0) ds)"
  using assms by (auto simp: series_where_def np_lt_def)

lemma sum_list_positive:
  assumes "\<forall>x \<in> set xs. (0::real) < x" and "xs \<noteq> []"
  shows "0 < sum_list xs"
  using assms
proof (induction xs)
  case Nil
  then show ?case by simp
next
  case (Cons x xs)
  then show ?case
    by (cases xs) (auto intro: add_pos_pos)
qed

lemma sum_list_zeros:
  assumes "\<forall>x \<in> set xs. x = (0::real)"
  shows "sum_list xs = 0"
  using assms by (induction xs) simp_all

lemma last_rolling_mean_Finite:
  assumes "0 < w" and "w \<le> length xs"
  shows "last (rolling w mean (map Finite xs)) = Finite (sum_list (drop (length xs - w) xs) / real w)"
proof -
  from assms have ne: "map Finite xs \<noteq> []" by auto
  have "length (drop (length xs - w) xs) = w" using assms by simp
  with assms show ?thesis
    by (simp add: last_rolling [OF ne] mean_def drop_map)
qed

lemma rsi_of_increasing:
  assumes inc: "sorted_wrt (<) (map Close df)" and len: "15 \<le> length df"
  shows "rsi_calculation df ind =
           Some (ind(''rsi'' \<mapsto> Float (Finite 100), ''rsi_signal'' \<mapsto> Str ''overbought''))"
proof -
  from len obtain c cs where closes: "map Close df = c # cs"
    by (cases "map Close df") auto
  define ds where "ds = map2 (\<lambda>b a. b - a) cs (c # cs)"
  have n: "length df = Suc (length cs)"
    using closes by (metis length_Cons length_map)
  have lds: "length ds = length cs" by (simp add: ds_def)
  have pos: "\<forall>d \<in> set ds. 0 < d"
    unfolding ds_def using inc closes by (intro increasing_deltas) simp
  have delta: "diff (column Close df) = NaN # map Finite ds"
    unfolding column_map closes ds_def by (rule diff_map_Finite)
  define gain where
    "gain = rolling 14 mean (series_where (\<lambda>d. np_gt d (Finite 0)) (Finite 0) (diff (column Close df)))"
  define loss where
    "loss = rolling 14 mean
       (map np_neg (series_where (\<lambda>d. np_lt d (Finite 0)) (Finite 0) (diff (column Close df))))"
  have gain: "gain = rolling 14 mean (map Finite (0 # ds))"
    unfolding gain_def delta using pos by (simp only: gains_of_increasing)
  have loss: "loss = rolling 14 mean (map Finite (0 # map (\<lambda>d. 0) ds))"
    unfolding loss_def delta using pos by (simp only: losses_of_increasing)
  define w where "w = drop (length cs - 14) ds"
  have wd: "drop (length (0 # ds) - 14) (0 # ds) = w"
    using len n lds by (simp add: w_def drop_Cons')
  have wlen: "length w = 14" using len n lds by (simp add: w_def)
  then have wne: "w \<noteq> []" by auto
  have wpos: "\<forall>x \<in> set w. 0 < x"
    using pos by (auto simp: w_def dest: in_set_dropD)
  have g: "last gain = Finite (sum_list w / 14)"
    unfolding gain using len n lds
    by (subst last_rolling_mean_Finite) (simp_all only: wd, simp_all)
  define zs :: "real list" where "zs = 0 # map (\<lambda>d. 0) ds"
  have "\<forall>x \<in> set (drop (length zs - 14) zs). x = 0"
    by (auto simp: zs_def dest: in_set_dropD)
  then have z: "sum_list (drop (length zs - 14) zs) = 0"
    by (rule sum_list_zeros)
  have lzs: "14 \<le> length zs" using len n lds by (simp add: zs_def)
  have l: "last loss = Finite 0"
    unfolding loss zs_def [symmetric] using lzs
    by (subst last_rolling_mean_Finite) (simp_all only: z, simp_all)
  have gpos: "0 < sum_list w / 14"
    using sum_list_positive [OF wpos wne] by simp
  have lg: "length gain = length df" by (simp add: gain_def)
  have ll: "length loss = length df" by (simp add: loss_def)
  have gne: "gain \<noteq> []" using len lg by auto
  have rs: "last (map2 np_div gain loss) = PosInf"
    using gpos by (subst last_map2) (simp_all add: lg ll gne g l)
  have rsne: "map2 np_div gain loss \<noteq> []"
    using len lg ll by (cases gain; cases loss) auto
  define rsi where "rsi = map (\<lambda>r. np_sub (Finite 100) (np_div (Finite 100) (np_add (Finite 1) r)))
      (map2 np_div gain loss)"
  have rsine: "rsi \<noteq> []" using rsne by (simp add: rsi_def)
  have "last rsi = Finite 100"
    using rsne rs by (simp add: rsi_def last_map np_sub_def)
  with rsine have v: "iloc rsi (- 1) = Some (Finite 100)"
    by (simp add: iloc_last)
  from len have "14 \<le> length df" by simp
  then show ?thesis
    unfolding rsi_calculation_def Let_def
    using v rsine by (simp add: gain_def loss_def rsi_def np_lt_def)
qed

subsection \<open>The result on a non-empty series\<close>

lemma rsi_calculation_some:
  "\<exists>ind'. rsi_calculation df ind = Some ind'"
proof (cases "14 \<le> length df")
  case True
  define rsi where "rsi = map (\<lambda>r. np_sub (Finite 100) (np_div (Finite 100) (np_add (Finite 1) r)))
     (map2 np_div
        (rolling 14 mean (series_where (\<lambda>d. np_gt d (Finite 0)) (Finite 0) (diff (column Close df))))
        (rolling 14 mean
           (map np_neg (series_where (\<lambda>d. np_lt d (Finite 0)) (Finite 0) (diff (column Close df))))))"
  have "length rsi = length df" by (simp add: rsi_def)
  with True have "rsi \<noteq> []" by auto
  then have "iloc rsi (- 1) = Some (last rsi)" by (rule iloc_last)
  with True \<open>rsi \<noteq> []\<close> show ?thesis
    unfolding rsi_calculation_def Let_def rsi_def [symmetric] by simp
next
  case False
  then show ?thesis by (simp add: rsi_calculation_def)
qed

lemma calculate_technical_indicators_nonempty:
  assumes "df \<noteq> []"
  obtains ind1 ind2 ind3 ind4 where
    "moving_averages df Map.empty = Some ind1"
    "rsi_calculation df ind1 = Some ind2"
    "volume_analysis df ind2 = Some ind3"
    "price_momentum df ind3 = Some ind4"
    "calculate_technical_indicators df =
       ind4(''volatility'' \<mapsto>
              Float (np_mul (last (rolling 10 std (pct_change_series (column Close df)))) (Finite 100)),
            ''resistance_level'' \<mapsto> Float (last (rolling 20 window_max (column High df))),
            ''support_level'' \<mapsto> Float (last (rolling 20 window_min (column Low df))))"
proof -
  obtain ind1 where 1: "moving_averages df Map.empty = Some ind1"
    using moving_averages_result [OF assms] by blast
  obtain ind2 where 2: "rsi_calculation df ind1 = Some ind2"
    using rsi_calculation_some by blast
  obtain ind3 where 3: "volume_analysis df ind2 = Some ind3"
    using volume_analysis_result [OF assms] by blast
  obtain ind4 where 4: "price_momentum df ind3 = Some ind4"
    using price_momentum_some by blast
  have "calculate_technical_indicators df =
       ind4(''volatility'' \<mapsto>
              Float (np_mul (last (rolling 10 std (pct_change_series (column Close df)))) (Finite 100)),
            ''resistance_level'' \<mapsto> Float (last (rolling 20 window_max (column High df))),
            ''support_level'' \<mapsto> Float (last (rolling 20 window_min (column Low df))))"
    by (simp add: calculate_technical_indicators_def 1 2 3 4 volatility_result [OF assms]
        support_resistance_result [OF assms])
  with 1 2 3 4 show thesis by (rule that)
qed

text \<open>
  What a series that is too short yields: the unguarded keys hold \<open>NaN\<close>, the guarded keys
  are present exactly from their minimum length on.
\<close>

lemma short_series_support_resistance:
  assumes "df \<noteq> []" and "length df < 20"
  shows "calculate_technical_indicators df ''resistance_level'' = Some (Float NaN)"
    and "calculate_technical_indicators df ''support_level'' = Some (Float NaN)"
proof -
  from assms(1) obtain ind4 where "calculate_technical_indicators df =
       ind4(''volatility'' \<mapsto>
              Float (np_mul (last (rolling 10 std (pct_change_series (column Close df)))) (Finite 100)),
            ''resistance_level'' \<mapsto> Float (last (rolling 20 window_max (column High df))),
            ''support_level'' \<mapsto> Float (last (rolling 20 window_min (column Low df))))"
    by (rule calculate_technical_indicators_nonempty)
  then show "calculate_technical_indicators df ''resistance_level'' = Some (Float NaN)"
    and "calculate_technical_indicators df ''support_level'' = Some (Float NaN)"
    using assms by (simp_all add: last_rolling_short column_nonempty)
qed

lemma short_series_volume_ratio:
  assumes "df \<noteq> []" and "length df < 10"
  shows "calculate_technical_indicators df ''volume_ratio'' = Some (Float NaN)"
    and "calculate_technical_indicators df ''volume_signal'' = Some (Str ''normal'')"
proof -
  from assms(1) obtain ind2 ind3 ind4 where
    3: "volume_analysis df ind2 = Some ind3" and
    4: "price_momentum df ind3 = Some ind4" and
    c: "calculate_technical_indicators df =
       ind4(''volatility'' \<mapsto>
              Float (np_mul (last (rolling 10 std (pct_change_series (column Close df)))) (Finite 100)),
            ''resistance_level'' \<mapsto> Float (last (rolling 20 window_max (column High df))),
            ''support_level'' \<mapsto> Float (last (rolling 20 window_min (column Low df))))"
    by (rule calculate_technical_indicators_nonempty)
  have avg: "last (rolling 10 mean (column (\<lambda>b. real_of_int (Volume b)) df)) = NaN"
    using assms by (simp add: last_rolling_short column_nonempty)
  from 3 have ind3: "ind3 = ind2(''volume_ratio'' \<mapsto> Float NaN, ''volume_signal'' \<mapsto> Str ''normal'')"
    unfolding volume_analysis_result [OF assms(1)] avg by (simp add: Let_def)
  have "ind4 ''volume_ratio'' = ind3 ''volume_ratio''" "ind4 ''volume_signal'' = ind3 ''volume_signal''"
    using price_momentum_keys [OF 4] by simp_all
  then show "calculate_technical_indicators df ''volume_ratio'' = Some (Float NaN)"
    and "calculate_technical_indicators df ''volume_signal'' = Some (Str ''normal'')"
    by (simp_all add: c ind3)
qed

lemma gated_indicators:
  assumes "df \<noteq> []"
  shows "calculate_technical_indicators df ''ma20'' \<noteq> None \<longleftrightarrow> 20 \<le> length df"
    and "calculate_technical_indicators df ''ma10'' \<noteq> None \<longleftrightarrow> 10 \<le> length df"
    and "calculate_technical_indicators df ''ma5'' \<noteq> None \<longleftrightarrow> 5 \<le> length df"
    and "calculate_technical_indicators df ''rsi'' \<noteq> None \<longleftrightarrow> 14 \<le> length df"
proof -
  from assms obtain ind1 ind2 ind3 ind4 where
    1: "moving_averages df Map.empty = Some ind1" and
    2: "rsi_calculation df ind1 = Some ind2" and
    3: "volume_analysis df ind2 = Some ind3" and
    4: "price_momentum df ind3 = Some ind4" and
    c: "calculate_technical_indicators df =
       ind4(''volatility'' \<mapsto>
              Float (np_mul (last (rolling 10 std (pct_change_series (column Close df)))) (Finite 100)),
            ''resistance_level'' \<mapsto> Float (last (rolling 20 window_max (column High df))),
            ''support_level'' \<mapsto> Float (last (rolling 20 window_min (column Low df))))"
    by (rule calculate_technical_indicators_nonempty)
  have k4: "ind4 k = ind3 k" if "k \<noteq> ''momentum_5d''" for k
    using price_momentum_keys [OF 4 that] .
  have k3: "ind3 k = ind2 k" if "k \<noteq> ''volume_ratio''" "k \<noteq> ''volume_signal''" for k
    using 3 that unfolding volume_analysis_result [OF assms] by (auto simp: Let_def)
  have ma: "ind2 k = ind1 k" if "k \<noteq> ''rsi''" "k \<noteq> ''rsi_signal''" for k
    using rsi_calculation_keys [OF 2 that] .
  have i1: "(ind1 ''ma20'' \<noteq> None \<longleftrightarrow> 20 \<le> length df) \<and> (ind1 ''ma10'' \<noteq> None \<longleftrightarrow> 10 \<le> length df) \<and>
     (ind1 ''ma5'' \<noteq> None \<longleftrightarrow> 5 \<le> length df) \<and> ind1 ''rsi'' = None"
    using 1 unfolding moving_averages_result [OF assms] by (auto simp: Let_def split: if_splits)
  have r: "ind2 ''rsi'' \<noteq> None \<longleftrightarrow> 14 \<le> length df"
    using 2 i1 by (auto simp: rsi_calculation_def Let_def split: if_splits Option.bind_splits)
  show "calculate_technical_indicators df ''ma20'' \<noteq> None \<longleftrightarrow> 20 \<le> length df"
    and "calculate_technical_indicators df ''ma10'' \<noteq> None \<longleftrightarrow> 10 \<le> length df"
    and "calculate_technical_indicators df ''ma5'' \<noteq> None \<longleftrightarrow> 5 \<le> length df"
    and "calculate_technical_indicators df ''rsi'' \<noteq> None \<longleftrightarrow> 14 \<le> length df"
    using i1 r by (simp_all add: c k4 k3 ma)
qed

subsection \<open>Omitted and present indicators\<close>

lemma length_rising [simp]: "length (rising n) = n"
  by (simp add: rising_def)

lemma rising_nonempty: "0 < n \<Longrightarrow> rising n \<noteq> []"
  using length_rising [of n] by (metis length_0_conv less_numeral_extra(3))

text \<open>
  Claim C4 asks that an indicator whose series is too short has no key in the result. The
  moving averages and the RSI are guarded by the length of the series and are omitted so:
  twelve bars give \<open>ma5\<close> and \<open>ma10\<close> and neither \<open>ma20\<close> nor \<open>rsi\<close>. The volume ratio and
  the support and resistance levels are computed without a guard, from rolling windows
  that are not full: for twelve bars the keys \<open>resistance_level\<close> and \<open>support_level\<close>
  are present and hold \<open>NaN\<close>, and for nine bars \<open>volume_ratio\<close> is present and holds
  \<open>NaN\<close>, with the signal \<open>normal\<close>.
\<close>

theorem twelve_bars_keep_support_resistance:
  "length (rising 12) = 12 \<and>
   calculate_technical_indicators (rising 12) ''ma5'' \<noteq> None \<and>
   calculate_technical_indicators (rising 12) ''ma10'' \<noteq> None \<and>
   calculate_technical_indicators (rising 12) ''ma20'' = None \<and>
   calculate_technical_indicators (rising 12) ''rsi'' = None \<and>
   calculate_technical_indicators (rising 12) ''resistance_level'' = Some (Float NaN) \<and>
   calculate_technical_indicators (rising 12) ''support_level'' = Some (Float NaN) \<and>
   length (rising 9) = 9 \<and>
   calculate_technical_indicators (rising 9) ''volume_ratio'' = Some (Float NaN) \<and>
   calculate_technical_indicators (rising 9) ''volume_signal'' = Some (Str ''normal'')"
proof -
  have ne: "rising 12 \<noteq> []" "rising 9 \<noteq> []" by (simp_all add: rising_nonempty)
  from gated_indicators [OF ne(1)] short_series_support_resistance [OF ne(1)]
    short_series_volume_ratio [OF ne(2)]
  show ?thesis by simp
qed

subsection \<open>The RSI of a rising series\<close>

text \<open>
  Claim C8: for a series of at least 15 bars whose closes increase strictly, the
  computation does not end in its exception handler (the result is not the empty
  dictionary): the average loss is zero, the division yields an infinity, and the result
  holds an RSI of exactly 100 with the signal \<open>overbought\<close>.
\<close>

theorem rsi_of_strictly_increasing_closes:
  assumes "sorted_wrt (<) (map Close df)" and "15 \<le> length df"
  shows "calculate_technical_indicators df ''rsi'' = Some (Float (Finite 100)) \<and>
         calculate_technical_indicators df ''rsi_signal'' = Some (Str ''overbought'')"
proof -
  from assms(2) have ne: "df \<noteq> []" by auto
  then obtain ind1 ind2 ind3 ind4 where
    2: "rsi_calculation df ind1 = Some ind2" and
    3: "volume_analysis df ind2 = Some ind3" and
    4: "price_momentum df ind3 = Some ind4" and
    c: "calculate_technical_indicators df =
       ind4(''volatility'' \<mapsto>
              Float (np_mul (last (rolling 10 std (pct_change_series (column Close df)))) (Finite 100)),
            ''resistance_level'' \<mapsto> Float (last (rolling 20 window_max (column High df))),
            ''support_level'' \<mapsto> Float (last (rolling 20 window_min (column Low df))))"
    by (rule calculate_technical_indicators_nonempty)
  from 2 have ind2: "ind2 = ind1(''rsi'' \<mapsto> Float (Finite 100), ''rsi_signal'' \<mapsto> Str ''overbought'')"
    unfolding rsi_of_increasing [OF assms] by simp
  have k4: "ind4 k = ind3 k" if "k \<noteq> ''momentum_5d''" for k
    using price_momentum_keys [OF 4 that] .
  have k3: "ind3 k = ind2 k" if "k \<noteq> ''volume_ratio''" "k \<noteq> ''volume_signal''" for k
    using 3 that unfolding volume_analysis_result [OF ne] by (auto simp: Let_def)
  show ?thesis
    by (simp add: c k4 k3 ind2)
qed

text \<open>Fifteen bars closing at 100, 101, ..., 114.\<close>

theorem rsi_of_strictly_increasing_closes_witness:
  "sorted_wrt (<) (map Close (rising 15)) \<and> 15 \<le> length (rising 15) \<and>
   calculate_technical_indicators (rising 15) ''rsi'' = Some (Float (Finite 100)) \<and>
   calculate_technical_indicators (rising 15) ''rsi_signal'' = Some (Str ''overbought'')"
proof -
  have "map Close (rising 15) = map (\<lambda>i. 100 + real i) [0..<15]"
    by (simp add: rising_def day_bar_def)
  then have s: "sorted_wrt (<) (map Close (rising 15))"
    by (simp add: sorted_wrt_map)
  have l: "15 \<le> length (rising 15)" by simp
  from rsi_of_strictly_increasing_closes [OF s l] s l show ?thesis by simp
qed

end
